theory Spec2Isabelle
  imports Main "HOL-Library.Word"
begin

unbundle bit_operations_syntax

section \<open>Bytes and constants\<close>

text \<open>
  A \<open>Uint8Array\<close> is a list of 8-bit words. A JavaScript \<open>number\<close> that holds an
  integer is an \<open>int\<close>; a value that may be \<open>null\<close> or \<open>undefined\<close> is an \<open>option\<close>.
\<close>

type_synonym byte = "8 word"
type_synonym bytes = "byte list"

definition TAG_SIGNATURE_TYPE :: int where "TAG_SIGNATURE_TYPE = 0"
definition TAG_DOMAIN :: int where "TAG_DOMAIN = 1"
definition TAG_PERSONALIZATION :: int where "TAG_PERSONALIZATION = 2"
definition TAG_EPOCH :: int where "TAG_EPOCH = 3"
definition TAG_EXPIRES_AT :: int where "TAG_EXPIRES_AT = 4"
definition TAG_COUNTER :: int where "TAG_COUNTER = 5"
definition TAG_CHALLENGE :: int where "TAG_CHALLENGE = 6"
definition TAG_FLAGS :: int where "TAG_FLAGS = 7"
definition TAG_REQUEST_HASH :: int where "TAG_REQUEST_HASH = 8"
definition TAG_FAULT :: int where "TAG_FAULT = 9"
definition TAG_END :: int where "TAG_END = 255"

definition SIGNATURE_TYPE_AES_GCM_PERSONALIZED :: int where
  "SIGNATURE_TYPE_AES_GCM_PERSONALIZED = 5"
definition SIGNATURE_TYPE_HMAC :: int where "SIGNATURE_TYPE_HMAC = 6"
definition SIGNATURE_TYPE_AES_GCM_RESPONSE :: int where
  "SIGNATURE_TYPE_AES_GCM_RESPONSE = 9"

definition DEFAULT_MAX_MESSAGE_SIZE :: nat where "DEFAULT_MAX_MESSAGE_SIZE = 1024"
definition DEFAULT_RX_TIMEOUT_MS :: int where "DEFAULT_RX_TIMEOUT_MS = 1000"
definition HEADER_SIZE :: nat where "HEADER_SIZE = 2"
definition DEFAULT_TTL_SECONDS :: int where "DEFAULT_TTL_SECONDS = 10"
definition GCM_TAG_SIZE :: nat where "GCM_TAG_SIZE = 16"

text \<open>
  \<open>new Uint8Array([n])\<close> and a store \<open>chunk[i] = n\<close> keep the low eight bits of the
  integer \<open>n\<close>.
\<close>

definition toByte :: "int \<Rightarrow> byte" where
  "toByte n = word_of_int n"

section \<open>Errors\<close>

datatype error =
    MetadataNotAscending
  | MetadataValueTooLarge
  | SessionNotEstablished
  | MissingSessionInfo
  | MissingSessionInfoTag
  | SessionInfoAuthFailed
  | CiphertextTooShort
  | MissingResponseMetadata
  | DecryptFailed
  | TransportNotConnected
  | PayloadTooLarge nat
  | VehicleReported string
  | LibraryError string

section \<open>Metadata serializer (session.ts)\<close>

record MetadataItem =
  tag :: int
  val :: "bytes option"

text \<open>
  \<open>uint32ToBytes\<close>: \<open>value >>> 0\<close> is the value modulo \<open>2^32\<close>, and
  \<open>setUint32(0, _, false)\<close> stores it with the most significant byte first.
\<close>

definition uint32ToBytes :: "int \<Rightarrow> bytes" where
  "uint32ToBytes v =
     (let u = v mod 2 ^ 32
      in [toByte (u div 2 ^ 24), toByte (u div 2 ^ 16), toByte (u div 2 ^ 8), toByte u])"

text \<open>Reading a byte string as a big-endian number, to state what an encoding means.\<close>

definition bigEndian :: "bytes \<Rightarrow> int" where
  "bigEndian bs = foldl (\<lambda>acc b. acc * 256 + uint b) 0 bs"

text \<open>
  The loop of \<open>serializeMetadata\<close>, with its two local variables \<open>lastTag\<close> and
  \<open>chunks\<close>. The test \<open>!value\<close> holds for \<open>null\<close> and \<open>undefined\<close> only: a
  \<open>Uint8Array\<close> is an object, and every object is truthy, also one of length zero.
\<close>

fun serializeLoop :: "int \<Rightarrow> bytes list \<Rightarrow> MetadataItem list \<Rightarrow> error + bytes list" where
  "serializeLoop lastTag chunks [] = Inr chunks"
| "serializeLoop lastTag chunks (item # items) =
     (if tag item < lastTag then Inl MetadataNotAscending
      else case val item of
             None \<Rightarrow> serializeLoop (tag item) chunks items
           | Some v \<Rightarrow>
               if length v > 255 then Inl MetadataValueTooLarge
               else serializeLoop (tag item)
                      (chunks @ [toByte (tag item AND 255) # toByte (int (length v) AND 255) # v])
                      items)"

definition serializeMetadata :: "MetadataItem list \<Rightarrow> error + bytes" where
  "serializeMetadata items =
     (case serializeLoop (- 1) [] items of
        Inl e \<Rightarrow> Inl e
      | Inr chunks \<Rightarrow> Inr (concat (chunks @ [[toByte TAG_END]])))"

section \<open>Crypto helpers (crypto.ts)\<close>

text \<open>
  The primitives come from libraries outside the repository (noble, expo-crypto,
  protobufjs). They are the fields of a record passed to every function that uses
  them; a call that can throw returns \<open>None\<close> there.
\<close>

record SessionInfoFields =
  info_counter :: "int option"
  info_epoch :: "bytes option"
  info_clockTime :: "int option"
  info_publicKey :: "bytes option"

record CarServerResponse =
  actionStatusResult :: "int option"
  resultReasonPlainText :: "string option"

type_synonym object = string

record Library =
  lib_hmac_sha256 :: "bytes \<Rightarrow> bytes \<Rightarrow> bytes"
  lib_sha256 :: "bytes \<Rightarrow> bytes"
  lib_sha1 :: "bytes \<Rightarrow> bytes"
  lib_getPublicKey :: "bytes \<Rightarrow> bytes option"
  lib_getSharedSecret :: "bytes \<Rightarrow> bytes \<Rightarrow> bytes option"
  lib_gcm_encrypt :: "bytes \<Rightarrow> bytes \<Rightarrow> bytes \<Rightarrow> bytes \<Rightarrow> bytes option"
  lib_gcm_decrypt :: "bytes \<Rightarrow> bytes \<Rightarrow> bytes \<Rightarrow> bytes \<Rightarrow> bytes option"
  lib_decodeSessionInfoType :: "bytes \<Rightarrow> SessionInfoFields option"
  lib_encodeGetVehicleData :: "string \<Rightarrow> bytes"
  lib_decodeCarServerResponse :: "bytes \<Rightarrow> CarServerResponse option"
  lib_responseToObject :: "CarServerResponse \<Rightarrow> object"
  lib_vehicleDataToObject :: "bytes \<Rightarrow> object option"

record TeslaPrivateKey =
  d :: bytes
  publicKey :: "bytes option"

record TeslaSessionKeys =
  sharedSecret :: bytes
  aesKeyBytes :: bytes
  sessionInfoKey :: bytes

definition textEncoder_encode :: "string \<Rightarrow> bytes" where
  "textEncoder_encode str = map of_char str"

definition hmacSha256 :: "Library \<Rightarrow> bytes \<Rightarrow> bytes \<Rightarrow> bytes" where
  "hmacSha256 lib keyBytes message = lib_hmac_sha256 lib keyBytes message"

definition sha256 :: "Library \<Rightarrow> bytes \<Rightarrow> bytes" where
  "sha256 lib data = lib_sha256 lib data"

text \<open>
  \<open>timingSafeEqual\<close>: the accumulator \<open>diff\<close> is a JavaScript number that only
  ever holds values below 256, so an \<open>int\<close> with the bitwise operations of HOL.
\<close>

definition timingSafeEqual :: "bytes \<Rightarrow> bytes \<Rightarrow> bool" where
  "timingSafeEqual a b =
     (if length a \<noteq> length b then False
      else foldl (\<lambda>diff i. diff OR (uint (a ! i) XOR uint (b ! i))) 0 [0..<length a] = 0)"

definition verifyHmacSha256 :: "Library \<Rightarrow> bytes \<Rightarrow> bytes \<Rightarrow> bytes \<Rightarrow> bool" where
  "verifyHmacSha256 lib keyBytes message expected =
     (let actual = hmacSha256 lib keyBytes message in timingSafeEqual actual expected)"

definition encryptAesGcm :: "Library \<Rightarrow> bytes \<Rightarrow> bytes \<Rightarrow> bytes \<Rightarrow> bytes \<Rightarrow> error + bytes" where
  "encryptAesGcm lib key iv plaintext additionalData =
     (case lib_gcm_encrypt lib key iv additionalData plaintext of
        None \<Rightarrow> Inl (LibraryError ''gcm encrypt'')
      | Some out \<Rightarrow> Inr out)"

definition decryptAesGcm :: "Library \<Rightarrow> bytes \<Rightarrow> bytes \<Rightarrow> bytes \<Rightarrow> bytes \<Rightarrow> error + bytes" where
  "decryptAesGcm lib key iv ciphertext additionalData =
     (case lib_gcm_decrypt lib key iv additionalData ciphertext of
        None \<Rightarrow> Inl DecryptFailed
      | Some out \<Rightarrow> Inr out)"

definition defaultExpiry :: "int \<Rightarrow> int" where
  "defaultExpiry clockSeconds = clockSeconds + DEFAULT_TTL_SECONDS"

definition derivePublicKey :: "Library \<Rightarrow> TeslaPrivateKey \<Rightarrow> error + bytes" where
  "derivePublicKey lib privateKey =
     (case publicKey privateKey of
        Some pk \<Rightarrow> Inr pk
      | None \<Rightarrow>
          (case lib_getPublicKey lib (d privateKey) of
             None \<Rightarrow> Inl (LibraryError ''getPublicKey'')
           | Some pk \<Rightarrow> Inr pk))"

definition exportPublicKeyFromPrivate :: "Library \<Rightarrow> TeslaPrivateKey \<Rightarrow> error + bytes" where
  "exportPublicKeyFromPrivate lib privateKey = derivePublicKey lib privateKey"

definition deriveSessionKeys :: "Library \<Rightarrow> TeslaPrivateKey \<Rightarrow> bytes \<Rightarrow> error + TeslaSessionKeys" where
  "deriveSessionKeys lib privateKey peerPublicKey =
     (case lib_getSharedSecret lib (d privateKey) peerPublicKey of
        None \<Rightarrow> Inl (LibraryError ''getSharedSecret'')
      | Some sharedPoint \<Rightarrow>
          (let secret = drop 1 sharedPoint;
               sha1Digest = lib_sha1 lib secret;
               aesKey = take 16 sha1Digest;
               infoKey = hmacSha256 lib aesKey (textEncoder_encode ''session info'')
           in Inr \<lparr>sharedSecret = secret, aesKeyBytes = aesKey, sessionInfoKey = infoKey\<rparr>))"

section \<open>Transport: framing and reassembly (bluetooth.ts)\<close>

text \<open>
  The part of the transport that the notification handler touches: the reassembly
  buffer and the time of the last notification. \<open>Date.now()\<close> is an argument.
\<close>

record TeslaBleTransport =
  buffer :: bytes
  lastNotification :: int

text \<open>The packet that \<open>send\<close> builds and hands to \<open>writePacket\<close>.\<close>

definition sendPacket :: "bytes \<Rightarrow> error + bytes" where
  "sendPacket payload =
     (if length payload > DEFAULT_MAX_MESSAGE_SIZE then Inl (PayloadTooLarge (length payload))
      else Inr (toByte (drop_bit 8 (int (length payload)) AND 255)
                # toByte (int (length payload) AND 255)
                # payload))"

text \<open>
  \<open>flush\<close> returns the buffer it leaves behind and the messages it emits, in order.
  Each turn of the loop that goes on removes at least the two header bytes.
\<close>

function flush :: "bytes \<Rightarrow> bytes \<times> bytes list" where
  "flush buf =
     (if length buf \<ge> HEADER_SIZE then
        (let len = nat (push_bit 8 (uint (buf ! 0)) OR uint (buf ! 1)) in
         if len > DEFAULT_MAX_MESSAGE_SIZE then ([], [])
         else if length buf < HEADER_SIZE + len then (buf, [])
         else (let message = take len (drop HEADER_SIZE buf);
                   rest = flush (drop (HEADER_SIZE + len) buf)
               in (fst rest, message # snd rest)))
      else (buf, []))"
  by pat_completeness auto
termination
  by (relation "measure length") (auto simp: HEADER_SIZE_def)

declare flush.simps [simp del]

definition handleNotification ::
  "int \<Rightarrow> bytes \<Rightarrow> TeslaBleTransport \<Rightarrow> TeslaBleTransport \<times> bytes list" where
  "handleNotification now chunk t =
     (if chunk = [] then (t, [])
      else
        (let kept = (if now - lastNotification t > DEFAULT_RX_TIMEOUT_MS then [] else buffer t);
             merged = kept @ chunk;
             flushed = flush merged
         in (\<lparr>buffer = fst flushed, lastNotification = now\<rparr>, snd flushed)))"

text \<open>
  A run of notifications, each with the clock value at its arrival; the messages
  emitted are collected in order.
\<close>

fun notifications ::
  "(int \<times> bytes) list \<Rightarrow> TeslaBleTransport \<Rightarrow> TeslaBleTransport \<times> bytes list" where
  "notifications [] t = (t, [])"
| "notifications ((now, chunk) # rest) t =
     (let step = handleNotification now chunk t;
          later = notifications rest (fst step)
      in (fst later, snd step @ snd later))"

text \<open>
  \<open>vinToLocalName\<close>: the SHA-1 hex digest of the VIN comes from the platform
  (\<open>digestStringAsync\<close>) and is an argument. \<open>toLowerCase\<close> is modelled on ASCII letters.
\<close>

definition toLowerCase :: "string \<Rightarrow> string" where
  "toLowerCase str =
     map (\<lambda>c. if 65 \<le> (of_char c :: nat) \<and> (of_char c :: nat) \<le> 90
              then char_of ((of_char c :: nat) + 32) else c) str"

definition vinToLocalName :: "(string \<Rightarrow> string) \<Rightarrow> string \<Rightarrow> string" where
  "vinToLocalName digestSha1 vinStr =
     (let digestHex = toLowerCase (digestSha1 vinStr);
          hashHex = take 16 digestHex
      in ''S'' @ hashHex @ ''C'')"

section \<open>Protocol messages (protocol.ts)\<close>

text \<open>
  The fields of a decoded \<open>RoutableMessage\<close> that the session reads. A field that
  is absent is \<open>None\<close>; \<open>m_sessionInfoTag\<close> stands for
  \<open>signatureData?.sessionInfoTag?.tag\<close> and \<open>m_AES_GCM_ResponseData\<close> for
  \<open>signatureData?.AES_GCM_ResponseData\<close>.
\<close>

record AesGcmResponseData =
  rd_nonce :: "bytes option"
  rd_counter :: "int option"
  rd_tag :: "bytes option"

record RoutableMessage =
  m_sessionInfo :: "bytes option"
  m_sessionInfoTag :: "bytes option"
  m_AES_GCM_ResponseData :: "AesGcmResponseData option"
  m_protobufMessageAsBytes :: "bytes option"
  m_flags :: "int option"
  m_fromDestinationDomain :: "int option"
  m_signedMessageFault :: "int option"

record SessionInfoData =
  si_counter :: int
  si_epoch :: bytes
  si_clockTime :: int
  si_publicKey :: bytes

record EncryptSignatureData =
  sig_signerPublicKey :: bytes
  sig_epoch :: bytes
  sig_nonce :: bytes
  sig_counter :: int
  sig_expiresAt :: int
  sig_tag :: bytes

text \<open>The argument of \<open>encodeEncryptedCommand\<close>.\<close>

record EncryptedCommand =
  cmd_domain :: int
  cmd_routingAddress :: bytes
  cmd_uuid :: bytes
  cmd_ciphertext :: bytes
  cmd_flags :: int
  cmd_signature :: EncryptSignatureData

datatype StateCategory =
    Charge | Climate | Drive | Location | Closures | ChargeSchedule
  | PreconditioningSchedule | TirePressure | Media | MediaDetail
  | SoftwareUpdate | ParentalControls

fun stateCategoryToProtoField :: "StateCategory \<Rightarrow> string" where
  "stateCategoryToProtoField Charge = ''getChargeState''"
| "stateCategoryToProtoField Climate = ''getClimateState''"
| "stateCategoryToProtoField Drive = ''getDriveState''"
| "stateCategoryToProtoField Location = ''getLocationState''"
| "stateCategoryToProtoField Closures = ''getClosuresState''"
| "stateCategoryToProtoField ChargeSchedule = ''getChargeScheduleState''"
| "stateCategoryToProtoField PreconditioningSchedule = ''getPreconditioningScheduleState''"
| "stateCategoryToProtoField TirePressure = ''getTirePressureState''"
| "stateCategoryToProtoField Media = ''getMediaState''"
| "stateCategoryToProtoField MediaDetail = ''getMediaDetailState''"
| "stateCategoryToProtoField SoftwareUpdate = ''getSoftwareUpdateState''"
| "stateCategoryToProtoField ParentalControls = ''getParentalControlsState''"

definition encodeGetVehicleData :: "Library \<Rightarrow> StateCategory \<Rightarrow> bytes" where
  "encodeGetVehicleData lib category =
     lib_encodeGetVehicleData lib (stateCategoryToProtoField category)"

definition decodeCarServerResponse :: "Library \<Rightarrow> bytes \<Rightarrow> error + CarServerResponse" where
  "decodeCarServerResponse lib buf =
     (case lib_decodeCarServerResponse lib buf of
        None \<Rightarrow> Inl (LibraryError ''decode CarServer.Response'')
      | Some r \<Rightarrow> Inr r)"

definition decodeVehicleData :: "Library \<Rightarrow> bytes \<Rightarrow> error + object" where
  "decodeVehicleData lib buf =
     (case decodeCarServerResponse lib buf of
        Inl e \<Rightarrow> Inl e
      | Inr response \<Rightarrow>
          (case lib_vehicleDataToObject lib buf of
             None \<Rightarrow> Inl (LibraryError ''VehicleData.toObject'')
           | Some obj \<Rightarrow> Inr obj))"

definition decodeSessionInfo :: "Library \<Rightarrow> RoutableMessage \<Rightarrow> error + SessionInfoData" where
  "decodeSessionInfo lib message =
     (case m_sessionInfo message of
        None \<Rightarrow> Inl MissingSessionInfo
      | Some sessionInfoBytes \<Rightarrow>
          (case lib_decodeSessionInfoType lib sessionInfoBytes of
             None \<Rightarrow> Inl (LibraryError ''decode Signatures.SessionInfo'')
           | Some info \<Rightarrow>
               Inr \<lparr>si_counter = (case info_counter info of None \<Rightarrow> 0 | Some c \<Rightarrow> c),
                    si_epoch = (case info_epoch info of None \<Rightarrow> [] | Some e \<Rightarrow> e),
                    si_clockTime = (case info_clockTime info of None \<Rightarrow> 0 | Some c \<Rightarrow> c),
                    si_publicKey = (case info_publicKey info of None \<Rightarrow> [] | Some k \<Rightarrow> k)\<rparr>))"

definition extractSessionInfoTag :: "RoutableMessage \<Rightarrow> error + bytes" where
  "extractSessionInfoTag message =
     (case m_sessionInfoTag message of
        None \<Rightarrow> Inl MissingSessionInfoTag
      | Some t \<Rightarrow> Inr t)"

section \<open>Session (session.ts)\<close>

record DomainSessionState =
  keys :: TeslaSessionKeys
  counter :: int
  epoch :: bytes
  vehiclePublicKey :: bytes
  clientPublicKey :: bytes
  timeZeroMs :: int

text \<open>
  The session object. The table of pending requests holds continuations and timers
  only; a request's entry is added and removed again within one \<open>sendAndAwait\<close>, so
  the table is not part of the state modelled here.
\<close>

record TeslaBleSession =
  vin :: string
  domain :: int
  flags :: int
  routingAddress :: bytes
  sessionState :: "DomainSessionState option"
  connected :: bool

text \<open>
  Each asynchronous method is modelled as one function from the session before the
  call to the outcome and the session after it: a call runs to its end, and no other
  call or event changes the session while it waits.
\<close>

text \<open>
  What one call reads from outside the session: the outcome of the transport's
  \<open>connect\<close>, the random bytes drawn, the clock, and for each request what the wait
  for its response ends with (an error such as a time-out, or the decoded message).
\<close>

record Env =
  transportConnect :: "error option"
  handshakeUuid :: bytes
  handshakeReply :: "error + RoutableMessage"
  handshakeNow :: int
  commandNow :: int
  commandNonce :: bytes
  commandUuid :: bytes
  commandReply :: "error + RoutableMessage"

text \<open>
  What \<open>sendEncryptedCommand\<close> computes before it waits: kept so that statements can
  refer to the metadata and to the command handed to the encoder.
\<close>

record BuiltCommand =
  built_metadataItems :: "MetadataItem list"
  built_metadata :: bytes
  built_aad :: bytes
  built_requestId :: bytes
  built_command :: EncryptedCommand

record VehicleStateResult =
  res_category :: StateCategory
  res_rawResponse :: bytes
  res_response :: object
  res_vehicleData :: object

definition connect :: "Env \<Rightarrow> TeslaBleSession \<Rightarrow> (error + unit) \<times> TeslaBleSession" where
  "connect env s =
     (if connected s then (Inr (), s)
      else case transportConnect env of
             Some e \<Rightarrow> (Inl e, s)
           | None \<Rightarrow> (Inr (), s\<lparr>connected := True\<rparr>))"

definition disconnect :: "TeslaBleSession \<Rightarrow> TeslaBleSession" where
  "disconnect s = s\<lparr>connected := False, sessionState := None\<rparr>"

text \<open>
  \<open>sendAndAwait\<close>: the wait ends with \<open>reply\<close>; the continuation \<open>handler\<close> is what
  the \<open>then\<close> branch does with the message (it returns the message itself when no
  handler is given, and the plaintext the handler attached otherwise).
\<close>

definition sendAndAwait ::
  "TeslaBleSession \<Rightarrow> (error + RoutableMessage) \<Rightarrow> (RoutableMessage \<Rightarrow> error + 'a) \<Rightarrow> error + 'a" where
  "sendAndAwait s reply handler =
     (if \<not> connected s then Inl TransportNotConnected
      else case reply of
             Inl e \<Rightarrow> Inl e
           | Inr message \<Rightarrow> handler message)"

definition vehicleTimeSeconds :: "int \<Rightarrow> TeslaBleSession \<Rightarrow> int" where
  "vehicleTimeSeconds now s =
     (case sessionState s of
        None \<Rightarrow> now div 1000
      | Some st \<Rightarrow> (now - timeZeroMs st) div 1000)"

definition handshakeMetadataItems :: "TeslaBleSession \<Rightarrow> bytes \<Rightarrow> MetadataItem list" where
  "handshakeMetadataItems s uuid =
     [\<lparr>tag = TAG_SIGNATURE_TYPE, val = Some [toByte SIGNATURE_TYPE_HMAC]\<rparr>,
      \<lparr>tag = TAG_PERSONALIZATION, val = Some (textEncoder_encode (vin s))\<rparr>,
      \<lparr>tag = TAG_CHALLENGE, val = Some uuid\<rparr>]"

definition performHandshake ::
  "Library \<Rightarrow> Env \<Rightarrow> TeslaPrivateKey \<Rightarrow> TeslaBleSession \<Rightarrow> (error + unit) \<times> TeslaBleSession" where
  "performHandshake lib env privateKey s =
     (case exportPublicKeyFromPrivate lib privateKey of
        Inl e \<Rightarrow> (Inl e, s)
      | Inr clientKey \<Rightarrow>
     (let uuid = handshakeUuid env in
      case sendAndAwait s (handshakeReply env) Inr of
        Inl e \<Rightarrow> (Inl e, s)
      | Inr message \<Rightarrow>
     (case m_sessionInfo message of
        None \<Rightarrow> (Inl MissingSessionInfo, s)
      | Some sessionInfoBytes \<Rightarrow>
     (case decodeSessionInfo lib message of
        Inl e \<Rightarrow> (Inl e, s)
      | Inr sessionInfo \<Rightarrow>
     (case extractSessionInfoTag message of
        Inl e \<Rightarrow> (Inl e, s)
      | Inr tagBytes \<Rightarrow>
     (case deriveSessionKeys lib privateKey (si_publicKey sessionInfo) of
        Inl e \<Rightarrow> (Inl e, s)
      | Inr ks \<Rightarrow>
     (case serializeMetadata (handshakeMetadataItems s uuid) of
        Inl e \<Rightarrow> (Inl e, s)
      | Inr metadata \<Rightarrow>
          if \<not> verifyHmacSha256 lib (sessionInfoKey ks) (metadata @ sessionInfoBytes) tagBytes
          then (Inl SessionInfoAuthFailed, s)
          else
            (let zero = handshakeNow env - si_clockTime sessionInfo * 1000
             in (Inr (),
                 s\<lparr>sessionState := Some
                     \<lparr>keys = ks,
                      counter = si_counter sessionInfo,
                      epoch = si_epoch sessionInfo,
                      vehiclePublicKey = si_publicKey sessionInfo,
                      clientPublicKey = clientKey,
                      timeZeroMs = zero\<rparr>\<rparr>)))))))))"

definition responseMetadataItems ::
  "TeslaBleSession \<Rightarrow> RoutableMessage \<Rightarrow> AesGcmResponseData \<Rightarrow> bytes \<Rightarrow> MetadataItem list" where
  "responseMetadataItems s message signatureData requestId =
     (let cnt = (case rd_counter signatureData of None \<Rightarrow> 0 | Some c \<Rightarrow> c);
          fl = (case m_flags message of None \<Rightarrow> 0 | Some f \<Rightarrow> f);
          faultCode = (case m_signedMessageFault message of None \<Rightarrow> 0 | Some f \<Rightarrow> f)
      in [\<lparr>tag = TAG_SIGNATURE_TYPE, val = Some [toByte SIGNATURE_TYPE_AES_GCM_RESPONSE]\<rparr>,
          \<lparr>tag = TAG_DOMAIN,
           val = Some [toByte (case m_fromDestinationDomain message of
                                 None \<Rightarrow> domain s | Some dm \<Rightarrow> dm)]\<rparr>,
          \<lparr>tag = TAG_PERSONALIZATION, val = Some (textEncoder_encode (vin s))\<rparr>,
          \<lparr>tag = TAG_COUNTER, val = Some (uint32ToBytes cnt)\<rparr>]
         @ [\<lparr>tag = TAG_FLAGS, val = Some (uint32ToBytes fl)\<rparr>]
         @ [\<lparr>tag = TAG_REQUEST_HASH, val = Some requestId\<rparr>]
         @ [\<lparr>tag = TAG_FAULT, val = Some (uint32ToBytes faultCode)\<rparr>])"

definition handleEncryptedResponse ::
  "Library \<Rightarrow> TeslaBleSession \<Rightarrow> RoutableMessage \<Rightarrow> bytes \<Rightarrow> error + bytes" where
  "handleEncryptedResponse lib s message requestId =
     (case sessionState s of
        None \<Rightarrow> Inl SessionNotEstablished
      | Some session \<Rightarrow>
     (case m_AES_GCM_ResponseData message of
        None \<Rightarrow> Inl MissingResponseMetadata
      | Some signatureData \<Rightarrow>
     (let nonce = (case rd_nonce signatureData of None \<Rightarrow> [] | Some n \<Rightarrow> n);
          tagBytes = (case rd_tag signatureData of None \<Rightarrow> [] | Some t \<Rightarrow> t);
          ciphertext = (case m_protobufMessageAsBytes message of None \<Rightarrow> [] | Some c \<Rightarrow> c);
          combined = ciphertext @ tagBytes
      in case serializeMetadata (responseMetadataItems s message signatureData requestId) of
           Inl e \<Rightarrow> Inl e
         | Inr metadata \<Rightarrow>
             (let aad = sha256 lib metadata
              in decryptAesGcm lib (aesKeyBytes (keys session)) nonce combined aad))))"

definition commandMetadataItems ::
  "TeslaBleSession \<Rightarrow> DomainSessionState \<Rightarrow> int \<Rightarrow> int \<Rightarrow> MetadataItem list" where
  "commandMetadataItems s session expires cnt =
     [\<lparr>tag = TAG_SIGNATURE_TYPE, val = Some [toByte SIGNATURE_TYPE_AES_GCM_PERSONALIZED]\<rparr>,
      \<lparr>tag = TAG_DOMAIN, val = Some [toByte (domain s)]\<rparr>,
      \<lparr>tag = TAG_PERSONALIZATION, val = Some (textEncoder_encode (vin s))\<rparr>,
      \<lparr>tag = TAG_EPOCH, val = Some (epoch session)\<rparr>,
      \<lparr>tag = TAG_EXPIRES_AT, val = Some (uint32ToBytes expires)\<rparr>,
      \<lparr>tag = TAG_COUNTER, val = Some (uint32ToBytes cnt)\<rparr>]
     @ (if flags s \<noteq> 0 then [\<lparr>tag = TAG_FLAGS, val = Some (uint32ToBytes (flags s))\<rparr>] else [])"

text \<open>
  \<open>sendEncryptedCommand\<close> returns the outcome, the session as the call leaves it
  (the counter is incremented in place before anything can throw), and the command
  it built, if it got that far.
\<close>

definition sendEncryptedCommand ::
  "Library \<Rightarrow> Env \<Rightarrow> bytes \<Rightarrow> TeslaBleSession
     \<Rightarrow> (error + bytes) \<times> TeslaBleSession \<times> BuiltCommand option" where
  "sendEncryptedCommand lib env plaintext s =
     (case sessionState s of
        None \<Rightarrow> (Inl SessionNotEstablished, s, None)
      | Some session0 \<Rightarrow>
     (let session = session0\<lparr>counter := counter session0 + 1\<rparr>;
          s1 = s\<lparr>sessionState := Some session\<rparr>;
          cnt = counter session;
          vehicleNow = vehicleTimeSeconds (commandNow env) s1;
          expires = defaultExpiry vehicleNow;
          metadataItems = commandMetadataItems s1 session expires cnt
      in case serializeMetadata metadataItems of
           Inl e \<Rightarrow> (Inl e, s1, None)
         | Inr metadata \<Rightarrow>
     (let aad = sha256 lib metadata;
          nonce = commandNonce env
      in case encryptAesGcm lib (aesKeyBytes (keys session)) nonce plaintext aad of
           Inl e \<Rightarrow> (Inl e, s1, None)
         | Inr encrypted \<Rightarrow>
             if length encrypted < GCM_TAG_SIZE then (Inl CiphertextTooShort, s1, None)
             else
               (let ciphertext = take (length encrypted - GCM_TAG_SIZE) encrypted;
                    tagBytes = drop (length encrypted - GCM_TAG_SIZE) encrypted;
                    uuid = commandUuid env;
                    requestId = toByte SIGNATURE_TYPE_AES_GCM_PERSONALIZED # tagBytes;
                    command =
                      \<lparr>cmd_domain = domain s1,
                       cmd_routingAddress = routingAddress s1,
                       cmd_uuid = uuid,
                       cmd_ciphertext = ciphertext,
                       cmd_flags = flags s1,
                       cmd_signature =
                         \<lparr>sig_signerPublicKey = clientPublicKey session,
                          sig_epoch = epoch session,
                          sig_nonce = nonce,
                          sig_counter = cnt,
                          sig_expiresAt = expires,
                          sig_tag = tagBytes\<rparr>\<rparr>
                in (sendAndAwait s1 (commandReply env)
                      (\<lambda>message. handleEncryptedResponse lib s1 message requestId),
                    s1,
                    Some \<lparr>built_metadataItems = metadataItems,
                          built_metadata = metadata,
                          built_aad = aad,
                          built_requestId = requestId,
                          built_command = command\<rparr>)))))"

definition ensureSession ::
  "Library \<Rightarrow> Env \<Rightarrow> TeslaPrivateKey \<Rightarrow> TeslaBleSession \<Rightarrow> (error + unit) \<times> TeslaBleSession" where
  "ensureSession lib env privateKey s =
     (case (if \<not> connected s then connect env s else (Inr (), s)) of
        (Inl e, s1) \<Rightarrow> (Inl e, s1)
      | (Inr u, s1) \<Rightarrow>
          if sessionState s1 \<noteq> None then (Inr (), s1)
          else performHandshake lib env privateKey s1)"

definition getState ::
  "Library \<Rightarrow> Env \<Rightarrow> StateCategory \<Rightarrow> TeslaPrivateKey \<Rightarrow> TeslaBleSession
     \<Rightarrow> (error + VehicleStateResult) \<times> TeslaBleSession \<times> BuiltCommand option" where
  "getState lib env category privateKey s =
     (case ensureSession lib env privateKey s of
        (Inl e, s1) \<Rightarrow> (Inl e, s1, None)
      | (Inr u, s1) \<Rightarrow>
          if sessionState s1 = None then (Inl SessionNotEstablished, s1, None)
          else
            (let payload = encodeGetVehicleData lib category
             in case sendEncryptedCommand lib env payload s1 of
                  (Inl e, s2, built) \<Rightarrow> (Inl e, s2, built)
                | (Inr responseBytes, s2, built) \<Rightarrow>
                    (case decodeCarServerResponse lib responseBytes of
                       Inl e \<Rightarrow> (Inl e, s2, built)
                     | Inr response \<Rightarrow>
                         if actionStatusResult response = Some 1
                         then (Inl (VehicleReported
                                     (case resultReasonPlainText response of
                                        None \<Rightarrow> ''unknown error'' | Some reason \<Rightarrow> reason)),
                               s2, built)
                         else
                           (case decodeVehicleData lib responseBytes of
                              Inl e \<Rightarrow> (Inl e, s2, built)
                            | Inr vehicleData \<Rightarrow>
                                (Inr \<lparr>res_category = category,
                                      res_rawResponse = responseBytes,
                                      res_response = lib_responseToObject lib response,
                                      res_vehicleData = vehicleData\<rparr>,
                                 s2, built)))))"

text \<open>
  A run of \<open>getState\<close> calls on one session, one environment per call. It stops at
  the first call that fails; the commands built by the calls are collected in order.
\<close>

fun getStates ::
  "Library \<Rightarrow> Env list \<Rightarrow> StateCategory \<Rightarrow> TeslaPrivateKey \<Rightarrow> TeslaBleSession
     \<Rightarrow> (error + BuiltCommand option list) \<times> TeslaBleSession" where
  "getStates lib [] category privateKey s = (Inr [], s)"
| "getStates lib (env # envs) category privateKey s =
     (case getState lib env category privateKey s of
        (Inl e, s1, built) \<Rightarrow> (Inl e, s1)
      | (Inr r, s1, built) \<Rightarrow>
          (case getStates lib envs category privateKey s1 of
             (Inl e, s2) \<Rightarrow> (Inl e, s2)
           | (Inr bs, s2) \<Rightarrow> (Inr (built # bs), s2)))"

section \<open>A toy library\<close>

text \<open>
  An instance of the library record with toy primitives (a checksum in place of each
  hash, the identity cipher with a checksum tag in place of AES-GCM), to run the
  model on concrete inputs.
\<close>

definition toyLibrary :: Library where
  "toyLibrary =
     \<lparr>lib_hmac_sha256 = (\<lambda>k m. replicate 32 (sum_list (k @ m))),
      lib_sha256 = (\<lambda>m. replicate 32 (sum_list m)),
      lib_sha1 = (\<lambda>m. replicate 20 (sum_list m)),
      lib_getPublicKey = (\<lambda>k. Some (4 # k @ k)),
      lib_getSharedSecret = (\<lambda>k peer. if peer = [] then None else Some (4 # k @ peer)),
      lib_gcm_encrypt = (\<lambda>k iv aad pt. Some (pt @ replicate 16 (sum_list (k @ iv @ aad @ pt)))),
      lib_gcm_decrypt = (\<lambda>k iv aad ct.
         if 16 \<le> length ct \<and>
            drop (length ct - 16) ct
              = replicate 16 (sum_list (k @ iv @ aad @ take (length ct - 16) ct))
         then Some (take (length ct - 16) ct) else None),
      lib_decodeSessionInfoType = (\<lambda>b.
         case b of
           c # t # key \<Rightarrow>
             Some \<lparr>info_counter = Some (uint c), info_epoch = Some [c, t],
                   info_clockTime = Some (uint t), info_publicKey = Some key\<rparr>
         | _ \<Rightarrow> None),
      lib_encodeGetVehicleData = (\<lambda>field. map of_char field),
      lib_decodeCarServerResponse = (\<lambda>b.
         case b of
           [] \<Rightarrow> None
         | r # _ \<Rightarrow> Some \<lparr>actionStatusResult = Some (uint r), resultReasonPlainText = None\<rparr>),
      lib_responseToObject = (\<lambda>r. ''response''),
      lib_vehicleDataToObject = (\<lambda>b. Some ''vehicleData'')\<rparr>"

text \<open>
  A key, a session before and after a handshake, an environment whose requests
  time out, and messages as the toy vehicle would send them. The established
  session is the one the toy handshake yields (lemma \<open>toy_handshake\<close> below).
\<close>

definition toyPrivateKey :: TeslaPrivateKey where
  "toyPrivateKey = \<lparr>d = [1, 2, 4], publicKey = None\<rparr>"

definition toySession :: TeslaBleSession where
  "toySession =
     \<lparr>vin = ''5YJ3E1EA7JF000000'', domain = 3, flags = 2,
      routingAddress = [9, 9, 9, 9, 9, 9, 9, 9, 9, 9, 9, 9, 9, 9, 9, 9],
      sessionState = None, connected = True\<rparr>"

definition toyMessage :: RoutableMessage where
  "toyMessage =
     \<lparr>m_sessionInfo = None, m_sessionInfoTag = None, m_AES_GCM_ResponseData = None,
      m_protobufMessageAsBytes = None, m_flags = None, m_fromDestinationDomain = None,
      m_signedMessageFault = None\<rparr>"

definition toyEnv :: Env where
  "toyEnv =
     \<lparr>transportConnect = None,
      handshakeUuid = [1, 2, 3, 4, 5, 6, 7, 8, 9, 10, 11, 12, 13, 14, 15, 16],
      handshakeReply = Inl (LibraryError ''Request timed out''),
      handshakeNow = 150000,
      commandNow = 163000,
      commandNonce = [1, 1, 1, 1, 1, 1, 1, 1, 1, 1, 1, 1],
      commandUuid = [2, 2, 2, 2, 2, 2, 2, 2, 2, 2, 2, 2, 2, 2, 2, 2],
      commandReply = Inl (LibraryError ''Request timed out'')\<rparr>"

definition toySessionInfoMessage :: "bytes \<Rightarrow> bytes \<Rightarrow> RoutableMessage" where
  "toySessionInfoMessage info t = toyMessage\<lparr>m_sessionInfo := Some info, m_sessionInfoTag := Some t\<rparr>"

definition toyResponseMessage :: "bytes \<Rightarrow> RoutableMessage" where
  "toyResponseMessage t =
     toyMessage
       \<lparr>m_AES_GCM_ResponseData :=
          Some \<lparr>rd_nonce = Some [3, 3, 3, 3, 3, 3, 3, 3, 3, 3, 3, 3],
                rd_counter = Some 1, rd_tag = Some t\<rparr>,
        m_protobufMessageAsBytes := Some [0, 42],
        m_flags := Some 0,
        m_fromDestinationDomain := Some 3\<rparr>"

definition toyEstablished :: TeslaBleSession where
  "toyEstablished =
     toySession
       \<lparr>sessionState := Some
          \<lparr>keys = \<lparr>sharedSecret = [1, 2, 4, 4, 9],
                    aesKeyBytes = [20, 20, 20, 20, 20, 20, 20, 20, 20, 20, 20, 20, 20, 20, 20, 20],
                    sessionInfoKey = [16, 16, 16, 16, 16, 16, 16, 16, 16, 16, 16, 16, 16, 16, 16, 16,
                                      16, 16, 16, 16, 16, 16, 16, 16, 16, 16, 16, 16, 16, 16, 16, 16]\<rparr>,
           counter = 7, epoch = [7, 100], vehiclePublicKey = [4, 9],
           clientPublicKey = [4, 1, 2, 4, 1, 2, 4], timeZeroMs = 50000\<rparr>\<rparr>"

text \<open>
  The platform's SHA-1 hex digest at the VIN of the specification's example (the
  value printed by \<open>sha1sum\<close>), and the same digest in upper case under a second key.
\<close>

definition digestTable :: "string \<Rightarrow> string" where
  "digestTable v =
     (if v = ''5YJ3E1EA7JF000000'' then ''57bfc47617573c4e3cbda68717d1116d7886b21d''
      else if v = ''upper'' then ''57BFC47617573C4E3CBDA68717D1116D7886B21D''
      else [])"

section \<open>Statements of the specification, for comparison\<close>

text \<open>
  The serializer as the specification words it: a tag, a length and the value for
  each value that is not empty, then the end byte.
\<close>

definition spec_serializeMetadata :: "MetadataItem list \<Rightarrow> bytes" where
  "spec_serializeMetadata items =
     concat (map (\<lambda>item. case val item of
                            None \<Rightarrow> []
                          | Some v \<Rightarrow> if v = [] then []
                                      else toByte (tag item) # of_nat (length v) # v) items)
     @ [255]"

text \<open>
  The serializer's contract as the specification words it: tags strictly ascending,
  no value longer than 255 bytes, every tag one of the ten the protocol names.
\<close>

definition spec_metadataContract :: "MetadataItem list \<Rightarrow> bool" where
  "spec_metadataContract items \<longleftrightarrow>
     sorted_wrt (<) (map tag items)
     \<and> list_all (\<lambda>item. case val item of None \<Rightarrow> True | Some v \<Rightarrow> length v \<le> 255) items
     \<and> list_all (\<lambda>item. tag item \<in> set [0, 1, 2, 3, 4, 5, 6, 7, 8, 9]) items"

section \<open>Auxiliary notions\<close>

text \<open>What one item contributes to the output, and whether its value fits a length byte.\<close>

definition tlv :: "MetadataItem \<Rightarrow> bytes" where
  "tlv item = (case val item of None \<Rightarrow> [] | Some v \<Rightarrow> toByte (tag item) # of_nat (length v) # v)"

definition fits :: "MetadataItem \<Rightarrow> bool" where
  "fits item = (case val item of None \<Rightarrow> True | Some v \<Rightarrow> length v \<le> 255)"

section \<open>The metadata serializer: lemmas\<close>

lemma toByte_and255: "toByte (t AND 255) = toByte t"
proof -
  have "(255::int) = mask 8" by (simp add: mask_eq_exp_minus_1)
  then have "t AND 255 = take_bit 8 t" by (simp add: take_bit_eq_mask)
  then show ?thesis unfolding toByte_def by (simp add: wi_bintr)
qed

lemma toByte_int: "toByte (int n) = of_nat n"
  unfolding toByte_def by simp

lemma serializeLoop_ok:
  "sorted (l # map tag items) \<Longrightarrow> list_all fits items \<Longrightarrow>
   \<exists>r. serializeLoop l cs items = Inr r \<and> concat r = concat cs @ concat (map tlv items)"
proof (induction items arbitrary: l cs)
  case Nil
  then show ?case by simp
next
  case (Cons a items)
  from Cons.prems have le: "l \<le> tag a" and srt: "sorted (tag a # map tag items)"
    and rest: "list_all fits items" and fa: "fits a" by auto
  show ?case
  proof (cases "val a")
    case None
    then have "tlv a = []" by (simp add: tlv_def)
    with None le Cons.IH[OF srt rest, of cs] show ?thesis by auto
  next
    case (Some v)
    with fa have len: "length v \<le> 255" by (simp add: fits_def)
    have lb: "toByte (int (length v) AND 255) = of_nat (length v)"
      by (metis toByte_and255 toByte_int)
    have ta: "tlv a = toByte (tag a) # of_nat (length v) # v"
      using Some by (simp add: tlv_def)
    from Cons.IH[OF srt rest, of "cs @ [tlv a]"]
    obtain r where r: "serializeLoop (tag a) (cs @ [tlv a]) items = Inr r"
     "concat r = concat (cs @ [tlv a]) @ concat (map tlv items)" by blast
    have "serializeLoop l cs (a # items) = serializeLoop (tag a) (cs @ [tlv a]) items"
      using Some len le by (simp add: ta lb toByte_and255 toByte_int)
    with r show ?thesis by simp
  qed
qed

lemma serializeLoop_fail_iff:
  "isl (serializeLoop l cs items) \<longleftrightarrow> \<not> (sorted (l # map tag items) \<and> list_all fits items)"
proof (induction items arbitrary: l cs)
  case Nil
  then show ?case by simp
next
  case (Cons a items)
  show ?case
  proof (cases "tag a < l")
    case True
    then show ?thesis by auto
  next
    case False
    note nl = this
    show ?thesis
    proof (cases "val a")
      case None
      then have "serializeLoop l cs (a # items) = serializeLoop (tag a) cs items"
        using nl by simp
      moreover have "fits a" using None by (simp add: fits_def)
      moreover have "sorted (l # map tag (a # items)) \<longleftrightarrow> sorted (tag a # map tag items)"
        using nl by auto
      ultimately show ?thesis using Cons.IH[of "tag a" cs] by simp
    next
      case (Some v)
      show ?thesis
      proof (cases "length v > 255")
        case True
        then have "\<not> fits a" using Some by (simp add: fits_def)
        moreover have "isl (serializeLoop l cs (a # items))" using Some True nl by simp
        ultimately show ?thesis by simp
      next
        case False
        then have "serializeLoop l cs (a # items)
            = serializeLoop (tag a) (cs @ [toByte (tag a AND 255) # toByte (int (length v) AND 255) # v]) items"
          using nl Some by simp
        moreover have "fits a" using Some False by (simp add: fits_def)
        moreover have "sorted (l # map tag (a # items)) \<longleftrightarrow> sorted (tag a # map tag items)"
          using nl by auto
        ultimately show ?thesis
          using Cons.IH[of "tag a" "cs @ [toByte (tag a AND 255) # toByte (int (length v) AND 255) # v]"]
          by simp
      qed
    qed
  qed
qed

lemma serializeMetadata_ok:
  assumes "sorted ((- 1) # map tag items)" "list_all fits items"
  shows "serializeMetadata items = Inr (concat (map tlv items) @ [255])"
proof -
  from serializeLoop_ok[OF assms, of "[]"] obtain r where
    "serializeLoop (- 1) [] items = Inr r" "concat r = concat (map tlv items)" by auto
  then show ?thesis by (simp add: serializeMetadata_def toByte_def TAG_END_def)
qed

lemma serializeMetadata_fail_iff:
  "isl (serializeMetadata items) \<longleftrightarrow> \<not> (sorted ((- 1) # map tag items) \<and> list_all fits items)"
  using serializeLoop_fail_iff[of "- 1" "[]" items]
  by (auto simp: serializeMetadata_def split: sum.splits)



lemma be_arith:
  fixes u :: int
  assumes "0 \<le> u" "u < 4294967296"
  shows "(u div 16777216 mod 256 * 256 + u div 65536 mod 256) * 65536 + u div 256 mod 256 * 256 + u mod 256 = u"
proof -
  define a where "a = u div 256"
  define b where "b = a div 256"
  define c where "c = b div 256"
  have ua: "u = a * 256 + u mod 256" by (simp add: a_def)
  have ab: "a = b * 256 + a mod 256" by (simp add: b_def)
  have bc: "b = c * 256 + b mod 256" by (simp add: c_def)
  have b_eq: "u div 65536 = b" unfolding b_def a_def by (simp add: zdiv_zmult2_eq[symmetric])
  have c_eq: "u div 16777216 = c" unfolding c_def b_def a_def by (simp add: zdiv_zmult2_eq[symmetric])
  have "0 \<le> c" "c < 256" using assms unfolding c_eq[symmetric] by simp_all
  then have cm: "c mod 256 = c" by simp
  have "(c mod 256 * 256 + b mod 256) * 65536 + a mod 256 * 256 + u mod 256
        = (c * 256 + b mod 256) * 65536 + a mod 256 * 256 + u mod 256" by (simp add: cm)
  also have "\<dots> = b * 65536 + a mod 256 * 256 + u mod 256" using bc by simp
  also have "\<dots> = (b * 256 + a mod 256) * 256 + u mod 256" by (simp add: algebra_simps)
  also have "\<dots> = a * 256 + u mod 256" using ab by simp
  also have "\<dots> = u" using ua by simp
  finally show ?thesis unfolding b_eq c_eq a_def[symmetric] .
qed

lemma bigEndian_uint32ToBytes: "bigEndian (uint32ToBytes v) = v mod 2 ^ 32"
proof -
  define u where "u = v mod 2 ^ 32"
  have u: "0 \<le> u" "u < 4294967296" by (simp_all add: u_def)
  have "bigEndian (uint32ToBytes v) = (u div 16777216 mod 256 * 256 + u div 65536 mod 256) * 65536 + u div 256 mod 256 * 256 + u mod 256"
    unfolding bigEndian_def uint32ToBytes_def toByte_def Let_def u_def[symmetric]
    by (simp add: uint_word_of_int)
  also have "\<dots> = u" using u by (rule be_arith)
  finally show ?thesis by (simp add: u_def)
qed

lemma length_uint32ToBytes: "length (uint32ToBytes v) = 4"
  by (simp add: uint32ToBytes_def Let_def)

lemmas tag_defs =
  TAG_SIGNATURE_TYPE_def TAG_DOMAIN_def TAG_PERSONALIZATION_def TAG_EPOCH_def
  TAG_EXPIRES_AT_def TAG_COUNTER_def TAG_CHALLENGE_def TAG_FLAGS_def
  TAG_REQUEST_HASH_def TAG_FAULT_def TAG_END_def

section \<open>Constant-time comparison: lemmas\<close>

lemma word_xor_zero_iff: "(x :: 'a::len word) XOR y = 0 \<longleftrightarrow> x = y"
proof
  assume h: "x XOR y = 0"
  have "(x XOR y) XOR y = x" by (simp add: xor.assoc)
  with h show "x = y" by simp
next
  assume "x = y" then show "x XOR y = 0" by simp
qed

lemma uint_xor_zero_iff: "uint (x :: byte) XOR uint y = 0 \<longleftrightarrow> x = y"
proof -
  have "uint x XOR uint y = 0 \<longleftrightarrow> uint (x XOR y) = 0" by (simp only: uint_xor)
  also have "\<dots> \<longleftrightarrow> x XOR y = 0" by (simp only: uint_0_iff)
  also have "\<dots> \<longleftrightarrow> x = y" by (rule word_xor_zero_iff)
  finally show ?thesis .
qed

lemma foldl_or_zero:
  "foldl (\<lambda>diff i. diff OR (uint (a ! i) XOR uint ((b::bytes) ! i))) acc xs = (0::int)
     \<longleftrightarrow> acc = 0 \<and> (\<forall>i \<in> set xs. (a::bytes) ! i = b ! i)"
  by (induction xs arbitrary: acc) (auto simp: or_eq_0_iff uint_xor_zero_iff)

lemma timingSafeEqual_iff: "timingSafeEqual a b \<longleftrightarrow> a = b"
proof (cases "length a = length b")
  case False
  then show ?thesis unfolding timingSafeEqual_def by auto
next
  case True
  have "timingSafeEqual a b \<longleftrightarrow> (\<forall>i < length a. a ! i = b ! i)"
    unfolding timingSafeEqual_def using True by (auto simp add: foldl_or_zero)
  also have "\<dots> \<longleftrightarrow> a = b" using True by (simp add: list_eq_iff_nth_eq)
  finally show ?thesis .
qed

section \<open>Claims about the metadata serializer\<close>

text \<open>
  C4 (as amended). For every list of items whose tags ascend (none below the initial
  \<open>lastTag = -1\<close>) and whose present values are at most 255 bytes long, the
  serializer returns, for each item whose value is present (not \<open>null\<close> or
  \<open>undefined\<close>), also when the value has length zero, the tag byte, the length byte and
  the value, in item order, and then the single byte \<open>0xFF\<close>. \<open>uint32ToBytes\<close> yields
  four bytes that read big-endian as the value modulo \<open>2^32\<close>, and the items tagged
  EXPIRES_AT, COUNTER, FLAGS and FAULT of a command's and of a response's metadata carry
  values made by it.
\<close>

theorem serializeMetadata_output:
  "(sorted ((- 1) # map tag items)
      \<and> list_all (\<lambda>item. case val item of None \<Rightarrow> True | Some v \<Rightarrow> length v \<le> 255) items
     \<longrightarrow> serializeMetadata items
          = Inr (concat (map (\<lambda>item. case val item of
                                       None \<Rightarrow> []
                                     | Some v \<Rightarrow> toByte (tag item) # of_nat (length v) # v) items)
                 @ [255]))
   \<and> length (uint32ToBytes n) = 4
   \<and> bigEndian (uint32ToBytes n) = n mod 2 ^ 32
   \<and> (\<forall>item \<in> set (commandMetadataItems s st expires cnt).
         tag item \<in> {TAG_EXPIRES_AT, TAG_COUNTER, TAG_FLAGS, TAG_FAULT}
         \<longrightarrow> val item \<in> Some ` uint32ToBytes ` {expires, cnt, flags s})
   \<and> (\<forall>item \<in> set (responseMetadataItems s message sd requestId).
         tag item \<in> {TAG_EXPIRES_AT, TAG_COUNTER, TAG_FLAGS, TAG_FAULT}
         \<longrightarrow> (\<exists>k. val item = Some (uint32ToBytes k)))"
proof -
  have tlv_eq: "tlv = (\<lambda>item. case val item of
                                       None \<Rightarrow> []
                                     | Some v \<Rightarrow> toByte (tag item) # of_nat (length v) # v)"
    by (rule ext) (simp add: tlv_def)
  have fits_eq: "fits = (\<lambda>item. case val item of None \<Rightarrow> True | Some v \<Rightarrow> length v \<le> 255)"
    by (rule ext) (simp add: fits_def)
  have A: "sorted ((- 1) # map tag items)
      \<and> list_all (\<lambda>item. case val item of None \<Rightarrow> True | Some v \<Rightarrow> length v \<le> 255) items
     \<longrightarrow> serializeMetadata items
          = Inr (concat (map (\<lambda>item. case val item of
                                       None \<Rightarrow> []
                                     | Some v \<Rightarrow> toByte (tag item) # of_nat (length v) # v) items)
                 @ [255])"
    using serializeMetadata_ok[of items] unfolding tlv_eq fits_eq by blast
  have B: "\<forall>item \<in> set (commandMetadataItems s st expires cnt).
         tag item \<in> {TAG_EXPIRES_AT, TAG_COUNTER, TAG_FLAGS, TAG_FAULT}
         \<longrightarrow> val item \<in> Some ` uint32ToBytes ` {expires, cnt, flags s}"
    by (simp add: commandMetadataItems_def tag_defs)
  have C: "\<forall>item \<in> set (responseMetadataItems s message sd requestId).
         tag item \<in> {TAG_EXPIRES_AT, TAG_COUNTER, TAG_FLAGS, TAG_FAULT}
         \<longrightarrow> (\<exists>k. val item = Some (uint32ToBytes k))"
    by (auto simp add: responseMetadataItems_def tag_defs Let_def)
  from A B C show ?thesis
    by (simp only: length_uint32ToBytes bigEndian_uint32ToBytes simp_thms)
qed

text \<open>The theorem at a list with an empty value and an absent one, and at \<open>2^32 + 2\<close>.\<close>

theorem serializeMetadata_output_witness:
  "sorted [- 1, 0, 3, 6 :: int]
   \<and> serializeMetadata [\<lparr>tag = 0, val = Some [6]\<rparr>, \<lparr>tag = 3, val = Some []\<rparr>, \<lparr>tag = 6, val = None\<rparr>]
       = Inr [0, 1, 6, 3, 0, 255]
   \<and> bigEndian (uint32ToBytes 4294967298) = 2"
  using serializeMetadata_output
          [of "[\<lparr>tag = 0, val = Some [6]\<rparr>, \<lparr>tag = 3, val = Some []\<rparr>, \<lparr>tag = 6, val = None\<rparr>]"
              4294967298]
  by (simp add: toByte_def)

text \<open>
  C4 as stated fails on a value of length zero: the specification's wording skips it,
  the code emits its tag and a zero length byte.
\<close>

theorem serializeMetadata_empty_value_counterexample:
  "serializeMetadata [\<lparr>tag = TAG_EPOCH, val = Some []\<rparr>] = Inr [3, 0, 255]
   \<and> spec_serializeMetadata [\<lparr>tag = TAG_EPOCH, val = Some []\<rparr>] = [255]
   \<and> serializeMetadata [\<lparr>tag = TAG_EPOCH, val = Some []\<rparr>]
       \<noteq> Inr (spec_serializeMetadata [\<lparr>tag = TAG_EPOCH, val = Some []\<rparr>])"
  by (simp add: serializeMetadata_def spec_serializeMetadata_def toByte_def tag_defs)

text \<open>
  C5 (as amended). The serializer fails exactly when some tag is smaller than the tag
  before it (the first tag is compared with \<open>-1\<close>) or some present value is longer
  than 255 bytes. A repeated tag is accepted, and so is any tag number.
\<close>

theorem serializeMetadata_fails_iff:
  "isl (serializeMetadata items)
     \<longleftrightarrow> \<not> (sorted ((- 1) # map tag items)
            \<and> list_all (\<lambda>item. case val item of None \<Rightarrow> True | Some v \<Rightarrow> length v \<le> 255) items)"
proof -
  have fits_eq: "fits = (\<lambda>item. case val item of None \<Rightarrow> True | Some v \<Rightarrow> length v \<le> 255)"
    by (rule ext) (simp add: fits_def)
  show ?thesis using serializeMetadata_fail_iff[of items] unfolding fits_eq .
qed

text \<open>The theorem at a descending list, at an oversized value and at a well-formed list.\<close>

theorem serializeMetadata_fails_iff_witness:
  "isl (serializeMetadata [\<lparr>tag = 2, val = Some [1]\<rparr>, \<lparr>tag = 1, val = Some [1]\<rparr>])
   \<and> isl (serializeMetadata [\<lparr>tag = 2, val = Some (replicate 256 0)\<rparr>])
   \<and> \<not> isl (serializeMetadata [\<lparr>tag = 1, val = Some [1]\<rparr>, \<lparr>tag = 2, val = Some (replicate 255 0)\<rparr>])"
  using serializeMetadata_fails_iff [of "[\<lparr>tag = 2, val = Some [1]\<rparr>, \<lparr>tag = 1, val = Some [1]\<rparr>]"]
        serializeMetadata_fails_iff [of "[\<lparr>tag = 2, val = Some (replicate 256 0)\<rparr>]"]
        serializeMetadata_fails_iff [of "[\<lparr>tag = 1, val = Some [1]\<rparr>, \<lparr>tag = 2, val = Some (replicate 255 0)\<rparr>]"]
  by simp

text \<open>
  C5 as stated fails: a repeated tag and a tag outside the protocol's ten both violate
  the contract of the specification, and the serializer succeeds on them.
\<close>

theorem serializeMetadata_contract_counterexample:
  "\<not> (isl (serializeMetadata [\<lparr>tag = TAG_DOMAIN, val = Some [3]\<rparr>, \<lparr>tag = TAG_DOMAIN, val = Some [3]\<rparr>])
        \<longleftrightarrow> \<not> spec_metadataContract [\<lparr>tag = TAG_DOMAIN, val = Some [3]\<rparr>, \<lparr>tag = TAG_DOMAIN, val = Some [3]\<rparr>])
   \<and> serializeMetadata [\<lparr>tag = TAG_DOMAIN, val = Some [3]\<rparr>, \<lparr>tag = TAG_DOMAIN, val = Some [3]\<rparr>]
       = Inr [1, 1, 3, 1, 1, 3, 255]
   \<and> \<not> (isl (serializeMetadata [\<lparr>tag = 42, val = Some [3]\<rparr>])
        \<longleftrightarrow> \<not> spec_metadataContract [\<lparr>tag = 42, val = Some [3]\<rparr>])
   \<and> serializeMetadata [\<lparr>tag = 42, val = Some [3]\<rparr>] = Inr [42, 1, 3, 255]"
  by (simp add: serializeMetadata_def spec_metadataContract_def toByte_def tag_defs)

section \<open>Claims about HMAC verification\<close>

text \<open>
  C9. \<open>verifyHmacSha256\<close> returns true exactly when the HMAC of the message under the
  key equals the expected bytes; with a 32-byte HMAC it returns false for every
  expected value that is not 32 bytes long. The model has no error result here: the
  function does not throw.
\<close>

theorem verifyHmacSha256_iff:
  "(verifyHmacSha256 lib keyBytes message expected
      \<longleftrightarrow> hmacSha256 lib keyBytes message = expected)
   \<and> (length (hmacSha256 lib keyBytes message) = 32 \<and> length expected \<noteq> 32
        \<longrightarrow> \<not> verifyHmacSha256 lib keyBytes message expected)"
  by (auto simp: verifyHmacSha256_def Let_def timingSafeEqual_iff)

text \<open>The theorem at the toy HMAC: the right tag, a wrong tag, a short tag.\<close>

theorem verifyHmacSha256_iff_witness:
  "verifyHmacSha256 toyLibrary [1, 2] [3, 4] (replicate 32 10)
   \<and> \<not> verifyHmacSha256 toyLibrary [1, 2] [3, 4] (11 # replicate 31 10)
   \<and> \<not> verifyHmacSha256 toyLibrary [1, 2] [3, 4] (replicate 31 10)"
proof -
  have h: "hmacSha256 toyLibrary [1, 2] [3, 4] = replicate 32 10"
    by (simp add: hmacSha256_def toyLibrary_def)
  have d1: "replicate 32 (10 :: byte) \<noteq> 11 # replicate 31 10"
    by (simp add: eval_nat_numeral)
  have d2: "replicate 32 (10 :: byte) \<noteq> replicate 31 10"
    by (metis length_replicate numeral_eq_iff semiring_norm(88) semiring_norm(89) numeral_eq_iff)
  show ?thesis
    using verifyHmacSha256_iff [of toyLibrary "[1, 2]" "[3, 4]" "replicate 32 10"]
          verifyHmacSha256_iff [of toyLibrary "[1, 2]" "[3, 4]" "11 # replicate 31 10"]
          verifyHmacSha256_iff [of toyLibrary "[1, 2]" "[3, 4]" "replicate 31 10"]
    by (simp only: h d1 d2 simp_thms)
qed

section \<open>Claims about the transport\<close>

text \<open>
  C10. An empty notification chunk leaves the transport as it is: the buffer and the
  time of the last notification are unchanged and no message is emitted.
\<close>

theorem handleNotification_empty_chunk:
  "handleNotification now [] t = (t, [])"
  by (simp add: handleNotification_def)

text \<open>The theorem at a transport holding a partial frame.\<close>

theorem handleNotification_empty_chunk_witness:
  "handleNotification 5000 [] \<lparr>buffer = [0, 3, 7], lastNotification = 100\<rparr>
     = (\<lparr>buffer = [0, 3, 7], lastNotification = 100\<rparr>, [])"
  using handleNotification_empty_chunk [of 5000 "\<lparr>buffer = [0, 3, 7], lastNotification = 100\<rparr>"]
  by simp

section \<open>Reassembly: lemmas\<close>

lemma header_value:
  "push_bit 8 (uint (a::byte)) OR uint (b::byte) = uint a * 256 + uint b"
proof -
  have tb: "take_bit 8 (uint b) = uint b"
    by (rule take_bit_int_eq_self) (use uint_lt2p[of b] in simp_all)
  have "push_bit 8 (uint a) OR uint b = take_bit 8 (uint b) OR push_bit 8 (uint a)"
    by (simp add: tb or.commute)
  also have "\<dots> = take_bit 8 (uint b) + push_bit 8 (uint a)"
    by (simp only: concat_bit_def[symmetric] concat_bit_eq)
  also have "\<dots> = uint a * 256 + uint b"
    by (simp add: tb push_bit_int_def)
  finally show ?thesis .
qed

lemma uint_toByte_and255: "0 \<le> x \<Longrightarrow> uint (toByte (x AND 255)) = x mod 256"
proof -
  have "(255::int) = mask 8" by (simp add: mask_eq_exp_minus_1)
  then have "x AND 255 = take_bit 8 x" by (simp add: take_bit_eq_mask)
  then show ?thesis by (simp add: toByte_def uint_word_of_int take_bit_eq_mod)
qed

lemma sendPacket_header:
  assumes "sendPacket payload = Inr frame"
  shows "frame = (frame ! 0) # (frame ! 1) # payload"
    and "nat (uint (frame ! 0) * 256 + uint (frame ! 1)) = length payload"
    and "length payload \<le> 1024"
proof -
  from assms have le: "length payload \<le> 1024"
    by (simp add: sendPacket_def DEFAULT_MAX_MESSAGE_SIZE_def split: if_splits)
  from assms le have fr: "frame = toByte (drop_bit 8 (int (length payload)) AND 255)
                # toByte (int (length payload) AND 255) # payload"
    by (simp add: sendPacket_def DEFAULT_MAX_MESSAGE_SIZE_def)
  show "frame = (frame ! 0) # (frame ! 1) # payload" by (subst fr) (simp add: fr)
  have h0: "uint (frame ! 0) = (int (length payload) div 256) mod 256"
    by (simp add: fr uint_toByte_and255 drop_bit_int_def)
  have h1: "uint (frame ! 1) = int (length payload) mod 256"
    by (simp add: fr uint_toByte_and255)
  have "int (length payload) div 256 < 256" using le by simp
  then have "(int (length payload) div 256) mod 256 = int (length payload) div 256" by simp
  then have "uint (frame ! 0) * 256 + uint (frame ! 1) = int (length payload)"
    unfolding h0 h1 by simp
  then show "nat (uint (frame ! 0) * 256 + uint (frame ! 1)) = length payload" by simp
  show "length payload \<le> 1024" by (rule le)
qed

lemma flush_short: "length buf < 2 \<Longrightarrow> flush buf = (buf, [])"
  by (subst flush.simps) (simp add: HEADER_SIZE_def)

lemma flush_incomplete:
  assumes "2 \<le> length buf" "nat (uint (buf ! 0) * 256 + uint (buf ! 1)) \<le> 1024"
    "length buf < 2 + nat (uint (buf ! 0) * 256 + uint (buf ! 1))"
  shows "flush buf = (buf, [])"
  using assms
  by (subst flush.simps) (simp add: HEADER_SIZE_def DEFAULT_MAX_MESSAGE_SIZE_def header_value Let_def)

lemma flush_oversize:
  assumes "2 \<le> length buf" "1024 < nat (uint (buf ! 0) * 256 + uint (buf ! 1))"
  shows "flush buf = ([], [])"
  using assms
  by (subst flush.simps) (simp add: HEADER_SIZE_def DEFAULT_MAX_MESSAGE_SIZE_def header_value Let_def)

lemma flush_complete:
  assumes "2 \<le> length buf" "nat (uint (buf ! 0) * 256 + uint (buf ! 1)) \<le> 1024"
    "2 + nat (uint (buf ! 0) * 256 + uint (buf ! 1)) \<le> length buf"
  shows "flush buf = (fst (flush (drop (2 + nat (uint (buf ! 0) * 256 + uint (buf ! 1))) buf)),
                      take (nat (uint (buf ! 0) * 256 + uint (buf ! 1))) (drop 2 buf)
                      # snd (flush (drop (2 + nat (uint (buf ! 0) * 256 + uint (buf ! 1))) buf)))"
  using assms
  by (subst flush.simps) (simp add: HEADER_SIZE_def DEFAULT_MAX_MESSAGE_SIZE_def header_value Let_def)

lemma flush_frame:
  assumes "sendPacket payload = Inr frame"
  shows "flush frame = ([], [payload])"
proof -
  note h = sendPacket_header[OF assms]
  have len: "length frame = 2 + length payload" by (subst h(1)) simp
  have "flush frame = (fst (flush (drop (2 + length payload) frame)),
                      take (length payload) (drop 2 frame)
                      # snd (flush (drop (2 + length payload) frame)))"
    using flush_complete[of frame] h(2) h(3) len by simp
  moreover have "drop (2 + length payload) frame = []" using len by simp
  moreover have "take (length payload) (drop 2 frame) = payload" by (subst h(1)) simp
  ultimately show ?thesis by (simp add: flush_short)
qed

lemma flush_proper_prefix:
  assumes "sendPacket payload = Inr frame" "pre @ suf = frame" "suf \<noteq> []"
  shows "flush pre = (pre, [])"
proof (cases "length pre < 2")
  case True
  then show ?thesis by (rule flush_short)
next
  case False
  note h = sendPacket_header[OF assms(1)]
  have len: "length frame = 2 + length payload" by (subst h(1)) simp
  from False have p: "pre ! 0 = frame ! 0" "pre ! 1 = frame ! 1"
    using assms(2) by (auto simp: nth_append)
  have "length pre < length frame" using assms(2,3) by auto
  then show ?thesis using False h(2) h(3) len p
    by (intro flush_incomplete) simp_all
qed

lemma handleNotification_kept:
  assumes "chunk \<noteq> []" "buffer t = [] \<or> now - lastNotification t \<le> 1000"
  shows "handleNotification now chunk t
           = (\<lparr>buffer = fst (flush (buffer t @ chunk)), lastNotification = now\<rparr>,
              snd (flush (buffer t @ chunk)))"
  using assms by (auto simp: handleNotification_def Let_def DEFAULT_RX_TIMEOUT_MS_def)

lemma notifications_reassemble:
  assumes sp: "sendPacket payload = Inr frame"
  shows "buffer t @ concat (map snd cs) = frame \<Longrightarrow> cs \<noteq> [] \<Longrightarrow>
         \<forall>x \<in> set cs. snd x \<noteq> [] \<Longrightarrow>
         \<forall>i. Suc i < length cs \<longrightarrow> fst (cs ! Suc i) - fst (cs ! i) \<le> 1000 \<Longrightarrow>
         buffer t = [] \<or> fst (hd cs) - lastNotification t \<le> 1000 \<Longrightarrow>
         notifications cs t = (\<lparr>buffer = [], lastNotification = fst (last cs)\<rparr>, [payload])"
proof (induction cs arbitrary: t)
  case Nil
  then show ?case by simp
next
  case (Cons x rest)
  obtain now chunk where x: "x = (now, chunk)" by (cases x)
  from Cons.prems(3) x have ne: "chunk \<noteq> []" by simp
  from Cons.prems(5) x have k: "buffer t = [] \<or> now - lastNotification t \<le> 1000" by simp
  note hn = handleNotification_kept[OF ne k]
  show ?case
  proof (cases "rest = []")
    case True
    with Cons.prems(1) x have "buffer t @ chunk = frame" by simp
    then have "flush (buffer t @ chunk) = ([], [payload])" using flush_frame[OF sp] by simp
    with hn True x show ?thesis by simp
  next
    case False
    then obtain y rest' where rest: "rest = y # rest'" by (cases rest) auto
    have "snd y \<noteq> []" using Cons.prems(3) rest by simp
    then have suf: "concat (map snd rest) \<noteq> []" using rest by simp
    have "(buffer t @ chunk) @ concat (map snd rest) = frame" using Cons.prems(1) x by simp
    from flush_proper_prefix[OF sp this suf]
    have fl: "flush (buffer t @ chunk) = (buffer t @ chunk, [])" .
    define t1 where "t1 = \<lparr>buffer = buffer t @ chunk, lastNotification = now\<rparr>"
    have step: "handleNotification now chunk t = (t1, [])" using hn fl by (simp add: t1_def)
    have p1: "buffer t1 @ concat (map snd rest) = frame" using Cons.prems(1) x by (simp add: t1_def)
    have p3: "\<forall>x \<in> set rest. snd x \<noteq> []" using Cons.prems(3) by simp
    have p4: "\<forall>i. Suc i < length rest \<longrightarrow> fst (rest ! Suc i) - fst (rest ! i) \<le> 1000"
    proof (intro allI impI)
      fix i assume "Suc i < length rest"
      then have "Suc (Suc i) < length (x # rest)" by simp
      with Cons.prems(4) have "fst ((x # rest) ! Suc (Suc i)) - fst ((x # rest) ! Suc i) \<le> 1000"
        by blast
      then show "fst (rest ! Suc i) - fst (rest ! i) \<le> 1000" by simp
    qed
    have "Suc 0 < length (x # rest)" using False by (cases rest) auto
    with Cons.prems(4) have "fst ((x # rest) ! Suc 0) - fst ((x # rest) ! 0) \<le> 1000" by blast
    then have p5: "buffer t1 = [] \<or> fst (hd rest) - lastNotification t1 \<le> 1000"
      using rest x by (simp add: t1_def)
    from Cons.IH[OF p1 False p3 p4 p5]
    have "notifications rest t1 = (\<lparr>buffer = [], lastNotification = fst (last rest)\<rparr>, [payload])" .
    with step x False show ?thesis by simp
  qed
qed

text \<open>
  C7. A packet built by \<open>send\<close> (so with a payload of at most 1024 bytes), cut into
  non-empty chunks that arrive no more than 1000 ms apart at a transport whose
  buffer is empty or stale (the first chunk comes more than 1000 ms after the last
  notification), makes the transport emit exactly one message, the payload, and
  leaves the buffer empty. When the two header bytes at the front of the buffer
  decode to more than 1024, \<open>flush\<close> empties the buffer and emits nothing, and so
  does the notification that brought the buffer to that state.
\<close>

theorem reassembly:
  "(sendPacket payload = Inr frame
      \<and> concat (map snd chunks) = frame
      \<and> (\<forall>x \<in> set chunks. snd x \<noteq> [])
      \<and> (\<forall>i. Suc i < length chunks \<longrightarrow> fst (chunks ! Suc i) - fst (chunks ! i) \<le> 1000)
      \<and> (buffer t = [] \<or> 1000 < fst (hd chunks) - lastNotification t)
     \<longrightarrow> notifications chunks t
           = (\<lparr>buffer = [], lastNotification = fst (last chunks)\<rparr>, [payload]))
   \<and> (2 \<le> length buf \<and> 1024 < uint (buf ! 0) * 256 + uint (buf ! 1)
        \<longrightarrow> flush buf = ([], []))
   \<and> (chunk \<noteq> []
        \<and> merged = (if now - lastNotification t > 1000 then [] else buffer t) @ chunk
        \<and> 2 \<le> length merged \<and> 1024 < uint (merged ! 0) * 256 + uint (merged ! 1)
        \<longrightarrow> handleNotification now chunk t = (\<lparr>buffer = [], lastNotification = now\<rparr>, []))"
proof (intro conjI impI)
  assume a: "sendPacket payload = Inr frame
      \<and> concat (map snd chunks) = frame
      \<and> (\<forall>x \<in> set chunks. snd x \<noteq> [])
      \<and> (\<forall>i. Suc i < length chunks \<longrightarrow> fst (chunks ! Suc i) - fst (chunks ! i) \<le> 1000)
      \<and> (buffer t = [] \<or> 1000 < fst (hd chunks) - lastNotification t)"
  then have sp: "sendPacket payload = Inr frame"
    and cc: "concat (map snd chunks) = frame"
    and nonempty: "\<forall>x \<in> set chunks. snd x \<noteq> []"
    and gaps: "\<forall>i. Suc i < length chunks \<longrightarrow> fst (chunks ! Suc i) - fst (chunks ! i) \<le> 1000"
    and start: "buffer t = [] \<or> 1000 < fst (hd chunks) - lastNotification t"
    by blast+
  have "length frame \<ge> 2" using sendPacket_header(1)[OF sp]
    by (metis One_nat_def Suc_1 Suc_le_mono length_Cons le0)
  with cc have ne: "chunks \<noteq> []" by auto
  define t0 where "t0 = t\<lparr>buffer := []\<rparr>"
  have same: "notifications chunks t = notifications chunks t0"
  proof (cases "buffer t = []")
    case True
    then have "t0 = t" by (cases t) (simp add: t0_def)
    then show ?thesis by simp
  next
    case False
    with start have stale: "1000 < fst (hd chunks) - lastNotification t" by simp
    from ne obtain now chunk rest where ch: "chunks = (now, chunk) # rest"
      by (cases chunks) auto
    with nonempty have "chunk \<noteq> []" by simp
    with stale ch have "handleNotification now chunk t = handleNotification now chunk t0"
      by (simp add: handleNotification_def t0_def DEFAULT_RX_TIMEOUT_MS_def)
    then show ?thesis by (simp add: ch)
  qed
  have p1: "buffer t0 @ concat (map snd chunks) = frame" using cc by (simp add: t0_def)
  have p5: "buffer t0 = [] \<or> fst (hd chunks) - lastNotification t0 \<le> 1000" by (simp add: t0_def)
  from notifications_reassemble[OF sp p1 ne nonempty gaps p5] same
  show "notifications chunks t
           = (\<lparr>buffer = [], lastNotification = fst (last chunks)\<rparr>, [payload])"
    by simp
next
  assume a: "2 \<le> length buf \<and> 1024 < uint (buf ! 0) * 256 + uint (buf ! 1)"
  then have "1024 < nat (uint (buf ! 0) * 256 + uint (buf ! 1))" by linarith
  with a show "flush buf = ([], [])" by (intro flush_oversize) simp_all
next
  assume a: "chunk \<noteq> []
        \<and> merged = (if now - lastNotification t > 1000 then [] else buffer t) @ chunk
        \<and> 2 \<le> length merged \<and> 1024 < uint (merged ! 0) * 256 + uint (merged ! 1)"
  then have l: "2 \<le> length merged" and h: "1024 < uint (merged ! 0) * 256 + uint (merged ! 1)"
    and m: "merged = (if now - lastNotification t > 1000 then [] else buffer t) @ chunk"
    and ne: "chunk \<noteq> []" by blast+
  from h have "1024 < nat (uint (merged ! 0) * 256 + uint (merged ! 1))" by linarith
  from flush_oversize[OF l this] have "flush merged = ([], [])" .
  then have "flush ((if now - lastNotification t > 1000 then [] else buffer t) @ chunk) = ([], [])"
    unfolding m .
  with ne show "handleNotification now chunk t = (\<lparr>buffer = [], lastNotification = now\<rparr>, [])"
    by (simp add: handleNotification_def Let_def DEFAULT_RX_TIMEOUT_MS_def)
qed

text \<open>
  The theorem at the packet of the payload \<open>7, 8, 9\<close> in three chunks, and at a buffer
  whose header reads \<open>0x0401 = 1025\<close>.
\<close>

theorem reassembly_witness:
  "sendPacket [7, 8, 9] = Inr [0, 3, 7, 8, 9]
   \<and> notifications [(5000, [0]), (5900, [3, 7]), (6800, [8, 9])] \<lparr>buffer = [], lastNotification = 0\<rparr>
       = (\<lparr>buffer = [], lastNotification = 6800\<rparr>, [[7, 8, 9]])
   \<and> flush [4, 1, 9, 9] = ([], [])
   \<and> handleNotification 10 [1, 9, 9] \<lparr>buffer = [4], lastNotification = 0\<rparr>
       = (\<lparr>buffer = [], lastNotification = 10\<rparr>, [])"
proof -
  have sp: "sendPacket [7, 8, 9] = Inr [0, 3, 7, 8, 9]"
    by (simp add: sendPacket_def DEFAULT_MAX_MESSAGE_SIZE_def toByte_def drop_bit_int_def)
  have gaps: "\<forall>i. Suc i < length [(5000::int, [0::byte]), (5900, [3, 7]), (6800, [8, 9])]
       \<longrightarrow> fst ([(5000::int, [0::byte]), (5900, [3, 7]), (6800, [8, 9])] ! Suc i)
           - fst ([(5000::int, [0::byte]), (5900, [3, 7]), (6800, [8, 9])] ! i) \<le> 1000"
    by (simp add: nth_Cons split: nat.splits)
  show ?thesis
    using reassembly [of "[7, 8, 9]" "[0, 3, 7, 8, 9]"
                         "[(5000, [0]), (5900, [3, 7]), (6800, [8, 9])]"
                         "\<lparr>buffer = [], lastNotification = 0\<rparr>" "[4, 1, 9, 9]" "[1, 9, 9]"
                         "[4, 1, 9, 9]" 10]
          reassembly [of "[7, 8, 9]" "[0, 3, 7, 8, 9]"
                         "[(5000, [0]), (5900, [3, 7]), (6800, [8, 9])]"
                         "\<lparr>buffer = [4], lastNotification = 0\<rparr>" "[4, 1, 9, 9]" "[1, 9, 9]"
                         "[4, 1, 9, 9]" 10]
          sp gaps
    by simp
qed

section \<open>The advertised local name\<close>

lemma bit_Suc0_0: "bit (Suc 0) 0"
  by (simp add: bit_0)

lemma toLowerCase_hex:
  "c \<in> set ''0123456789abcdefABCDEF'' \<Longrightarrow> toLowerCase [c] \<in> (\<lambda>x. [x]) ` set ''0123456789abcdef''"
  apply (simp only: list.set insert_iff empty_iff)
  apply (elim disjE FalseE)
  apply (simp_all add: toLowerCase_def char_of_def bit_Suc0_0)
  done

lemma length_toLowerCase: "length (toLowerCase str) = length str"
  by (simp add: toLowerCase_def)

lemma toLowerCase_hex_set:
  assumes "set str \<subseteq> set ''0123456789abcdefABCDEF''"
  shows "set (toLowerCase str) \<subseteq> set ''0123456789abcdef''"
proof
  fix x assume "x \<in> set (toLowerCase str)"
  then obtain c where c: "c \<in> set str" "toLowerCase [c] = [x]"
    by (auto simp: toLowerCase_def)
  with assms have "c \<in> set ''0123456789abcdefABCDEF''" by blast
  from toLowerCase_hex[OF this] c(2) show "x \<in> set ''0123456789abcdef''" by auto
qed

lemma vinToLocalName_example:
  "vinToLocalName digestTable ''5YJ3E1EA7JF000000'' = ''S57bfc47617573c4eC''"
  by (simp add: vinToLocalName_def digestTable_def toLowerCase_def Let_def char_of_def bit_Suc0_0)

lemma vinToLocalName_upper:
  "vinToLocalName digestTable ''upper'' = ''S57bfc47617573c4eC''"
  by (simp add: vinToLocalName_def digestTable_def toLowerCase_def Let_def char_of_def bit_Suc0_0)

text \<open>
  C8 (as amended). For a digest of at least 16 characters (a SHA-1 hex digest has 40),
  the local-name prefix is \<open>S\<close>, the first 16 characters of the digest in lower case,
  and \<open>C\<close>, and it is 18 characters long. On a digest of hex digits in either case the
  16 characters are lower-case hex digits.
\<close>

theorem vinToLocalName_prefix:
  "(16 \<le> length (digestSha1 v)
     \<longrightarrow> vinToLocalName digestSha1 v = ''S'' @ take 16 (toLowerCase (digestSha1 v)) @ ''C''
         \<and> length (vinToLocalName digestSha1 v) = 18)
   \<and> (set (digestSha1 v) \<subseteq> set ''0123456789abcdefABCDEF''
        \<longrightarrow> set (take 16 (toLowerCase (digestSha1 v))) \<subseteq> set ''0123456789abcdef'')"
proof (intro conjI impI)
  assume "16 \<le> length (digestSha1 v)"
  then show "length (vinToLocalName digestSha1 v) = 18"
    by (simp add: vinToLocalName_def Let_def length_toLowerCase)
next
  show "vinToLocalName digestSha1 v = ''S'' @ take 16 (toLowerCase (digestSha1 v)) @ ''C''"
    by (simp add: vinToLocalName_def Let_def)
next
  assume "set (digestSha1 v) \<subseteq> set ''0123456789abcdefABCDEF''"
  from toLowerCase_hex_set[OF this] set_take_subset[of 16 "toLowerCase (digestSha1 v)"]
  show "set (take 16 (toLowerCase (digestSha1 v))) \<subseteq> set ''0123456789abcdef''" by blast
qed

text \<open>The theorem at the upper-case digest of the table.\<close>

theorem vinToLocalName_prefix_witness:
  "vinToLocalName digestTable ''upper'' = ''S57bfc47617573c4eC''
   \<and> length (vinToLocalName digestTable ''upper'') = 18"
  using vinToLocalName_prefix [of digestTable "''upper''"] vinToLocalName_upper
  by (simp add: digestTable_def)

text \<open>
  C8 as stated fails at the VIN of the specification's example: the prefix has 18
  characters, not 17.
\<close>

theorem vinToLocalName_length_counterexample:
  "vinToLocalName digestTable ''5YJ3E1EA7JF000000'' = ''S57bfc47617573c4eC''
   \<and> length (vinToLocalName digestTable ''5YJ3E1EA7JF000000'') \<noteq> 17"
  by (simp add: vinToLocalName_example)

section \<open>The session: lemmas\<close>

lemmas sig_defs = SIGNATURE_TYPE_AES_GCM_PERSONALIZED_def SIGNATURE_TYPE_HMAC_def
  SIGNATURE_TYPE_AES_GCM_RESPONSE_def

lemma length_textEncoder_encode: "length (textEncoder_encode str) = length str"
  by (simp add: textEncoder_encode_def)

lemma handshakeMetadata_bytes:
  assumes "length (vin s) \<le> 255" "length uuid = 16"
  shows "serializeMetadata (handshakeMetadataItems s uuid)
           = Inr ([0, 1, 6] @ [2, of_nat (length (vin s))] @ textEncoder_encode (vin s)
                  @ [6, 16] @ uuid @ [255])"
proof -
  have "serializeMetadata (handshakeMetadataItems s uuid)
          = Inr (concat (map tlv (handshakeMetadataItems s uuid)) @ [255])"
    using assms
    by (intro serializeMetadata_ok)
       (simp_all add: handshakeMetadataItems_def fits_def tag_defs length_textEncoder_encode)
  then show ?thesis using assms
    by (simp add: handshakeMetadataItems_def tlv_def tag_defs sig_defs toByte_def
        length_textEncoder_encode)
qed

lemma performHandshake_failure_keeps:
  "isl (fst (performHandshake lib env privateKey s)) \<Longrightarrow> snd (performHandshake lib env privateKey s) = s"
  by (auto simp: performHandshake_def Let_def split: sum.splits option.splits if_splits)

lemma performHandshake_cases:
  assumes "connected s" "exportPublicKeyFromPrivate lib privateKey = Inr clientKey"
    "handshakeReply env = Inr message" "m_sessionInfo message = Some sessionInfoBytes"
    "decodeSessionInfo lib message = Inr sessionInfo" "m_sessionInfoTag message = Some tagBytes"
    "deriveSessionKeys lib privateKey (si_publicKey sessionInfo) = Inr ks"
    "length (vin s) \<le> 255" "length (handshakeUuid env) = 16"
  shows "performHandshake lib env privateKey s =
       (if hmacSha256 lib (sessionInfoKey ks)
             ([0, 1, 6] @ [2, of_nat (length (vin s))] @ textEncoder_encode (vin s)
              @ [6, 16] @ handshakeUuid env @ [255] @ sessionInfoBytes) = tagBytes
        then (Inr (),
              s\<lparr>sessionState := Some
                  \<lparr>keys = ks,
                   counter = si_counter sessionInfo,
                   epoch = si_epoch sessionInfo,
                   vehiclePublicKey = si_publicKey sessionInfo,
                   clientPublicKey = clientKey,
                   timeZeroMs = handshakeNow env - si_clockTime sessionInfo * 1000\<rparr>\<rparr>)
        else (Inl SessionInfoAuthFailed, s))"
  using assms handshakeMetadata_bytes[OF assms(8,9)]
  by (simp add: performHandshake_def Let_def sendAndAwait_def extractSessionInfoTag_def
      verifyHmacSha256_def timingSafeEqual_iff)

lemma responseMetadata_bytes:
  assumes "length (vin s) \<le> 255" "length requestId \<le> 255"
  shows "serializeMetadata (responseMetadataItems s message signatureData requestId)
           = Inr ([0, 1, 9]
                  @ [1, 1, toByte (case m_fromDestinationDomain message of
                                     None \<Rightarrow> domain s | Some dm \<Rightarrow> dm)]
                  @ [2, of_nat (length (vin s))] @ textEncoder_encode (vin s)
                  @ [5, 4] @ uint32ToBytes (case rd_counter signatureData of None \<Rightarrow> 0 | Some c \<Rightarrow> c)
                  @ [7, 4] @ uint32ToBytes (case m_flags message of None \<Rightarrow> 0 | Some f \<Rightarrow> f)
                  @ [8, of_nat (length requestId)] @ requestId
                  @ [9, 4] @ uint32ToBytes (case m_signedMessageFault message of
                                              None \<Rightarrow> 0 | Some f \<Rightarrow> f)
                  @ [255])"
proof -
  have "serializeMetadata (responseMetadataItems s message signatureData requestId)
          = Inr (concat (map tlv (responseMetadataItems s message signatureData requestId)) @ [255])"
    using assms
    by (intro serializeMetadata_ok)
       (simp_all add: responseMetadataItems_def Let_def fits_def tag_defs
          length_textEncoder_encode length_uint32ToBytes)
  then show ?thesis using assms
    by (simp add: responseMetadataItems_def Let_def tlv_def tag_defs sig_defs toByte_def
        length_textEncoder_encode length_uint32ToBytes)
qed

lemma handleEncryptedResponse_aad:
  assumes "sessionState s = Some session" "m_AES_GCM_ResponseData message = Some signatureData"
    "length (vin s) \<le> 255" "requestId = 5 # requestTag" "length requestTag = 16"
  shows "handleEncryptedResponse lib s message requestId
          = decryptAesGcm lib (aesKeyBytes (keys session))
              (case rd_nonce signatureData of None \<Rightarrow> [] | Some n \<Rightarrow> n)
              ((case m_protobufMessageAsBytes message of None \<Rightarrow> [] | Some c \<Rightarrow> c)
               @ (case rd_tag signatureData of None \<Rightarrow> [] | Some t \<Rightarrow> t))
              (sha256 lib
                 ([0, 1, 9]
                  @ [1, 1, toByte (case m_fromDestinationDomain message of
                                     None \<Rightarrow> domain s | Some dm \<Rightarrow> dm)]
                  @ [2, of_nat (length (vin s))] @ textEncoder_encode (vin s)
                  @ [5, 4] @ uint32ToBytes (case rd_counter signatureData of None \<Rightarrow> 0 | Some c \<Rightarrow> c)
                  @ [7, 4] @ uint32ToBytes (case m_flags message of None \<Rightarrow> 0 | Some f \<Rightarrow> f)
                  @ [8, 17, 5] @ requestTag
                  @ [9, 4] @ uint32ToBytes (case m_signedMessageFault message of
                                              None \<Rightarrow> 0 | Some f \<Rightarrow> f)
                  @ [255]))"
proof -
  have "length requestId \<le> 255" using assms(4,5) by simp
  from responseMetadata_bytes[OF assms(3) this, of message signatureData]
  show ?thesis using assms
    by (simp add: handleEncryptedResponse_def Let_def)
qed

lemma sendEncryptedCommand_state:
  assumes "sessionState s = Some st"
  shows "fst (snd (sendEncryptedCommand lib env plaintext s))
           = s\<lparr>sessionState := Some (st\<lparr>counter := counter st + 1\<rparr>)\<rparr>"
  using assms
  by (simp add: sendEncryptedCommand_def Let_def split: sum.splits)

lemma sendEncryptedCommand_built:
  assumes "sendEncryptedCommand lib env plaintext s = (r, s', Some built)"
  shows "built_requestId built = 5 # sig_tag (cmd_signature (built_command built))"
    and "length (sig_tag (cmd_signature (built_command built))) = 16"
    and "r = sendAndAwait s' (commandReply env)
               (\<lambda>message. handleEncryptedResponse lib s' message (built_requestId built))"
    and "\<exists>st. sessionState s = Some st
           \<and> sig_counter (cmd_signature (built_command built)) = counter st + 1
           \<and> built_metadataItems built ! 5
               = \<lparr>tag = TAG_COUNTER, val = Some (uint32ToBytes (counter st + 1))\<rparr>
           \<and> serializeMetadata (built_metadataItems built) = Inr (built_metadata built)"
  using assms
  by (auto simp: sendEncryptedCommand_def Let_def GCM_TAG_SIZE_def sig_defs toByte_def
      commandMetadataItems_def
      split: sum.splits option.splits if_splits)

lemma sendEncryptedCommand_success_built:
  assumes "fst (sendEncryptedCommand lib env plaintext s) = Inr bytes"
  shows "\<exists>b. snd (snd (sendEncryptedCommand lib env plaintext s)) = Some b"
  using assms
  by (auto simp: sendEncryptedCommand_def Let_def split: sum.splits option.splits if_splits)

lemma connect_keeps_state:
  "sessionState (snd (connect env s)) = sessionState s"
  by (simp add: connect_def split: option.splits)

lemma ensureSession_established:
  assumes "sessionState s = Some st"
  shows "ensureSession lib env privateKey s = connect env s"
proof -
  have "sessionState (snd (connect env s)) \<noteq> None" using assms by (simp add: connect_keeps_state)
  then show ?thesis
    by (cases "connect env s") (auto simp: ensureSession_def connect_def split: sum.splits option.splits if_splits)
qed

lemma ensureSession_connected:
  assumes "sessionState s = Some st" "connected s"
  shows "ensureSession lib env privateKey s = (Inr (), s)"
  using assms by (simp add: ensureSession_established connect_def)

text \<open>What a call on an established session does to the session and what it builds.\<close>

lemma getState_established:
  assumes "sessionState s = Some st"
  shows "(isl (fst (getState lib env category privateKey s))
            \<and> sessionState (fst (snd (getState lib env category privateKey s))) = Some st
            \<and> snd (snd (getState lib env category privateKey s)) = None)
         \<or> (sessionState (fst (snd (getState lib env category privateKey s)))
               = Some (st\<lparr>counter := counter st + 1\<rparr>)
             \<and> (\<not> isl (fst (getState lib env category privateKey s))
                  \<longrightarrow> (\<exists>b. snd (snd (getState lib env category privateKey s)) = Some b
                        \<and> sig_counter (cmd_signature (built_command b)) = counter st + 1
                        \<and> built_metadataItems b ! 5
                            = \<lparr>tag = TAG_COUNTER, val = Some (uint32ToBytes (counter st + 1))\<rparr>
                        \<and> serializeMetadata (built_metadataItems b) = Inr (built_metadata b))))"
proof (cases "connect env s")
  case (Pair r1 s1)
  have st1: "sessionState s1 = Some st" using connect_keeps_state[of env s] Pair assms by simp
  show ?thesis
  proof (cases r1)
    case (Inl e)
    then have "getState lib env category privateKey s = (Inl e, s1, None)"
      using Pair assms by (simp add: getState_def ensureSession_established)
    then show ?thesis using st1 by simp
  next
    case (Inr u)
    define payload where "payload = encodeGetVehicleData lib category"
    obtain r2 s2 b2 where sec: "sendEncryptedCommand lib env payload s1 = (r2, s2, b2)"
      by (cases "sendEncryptedCommand lib env payload s1") auto
    have s2: "sessionState s2 = Some (st\<lparr>counter := counter st + 1\<rparr>)"
      using sendEncryptedCommand_state[OF st1, of lib env payload] sec by simp
    have gs: "fst (snd (getState lib env category privateKey s)) = s2"
      and gb: "snd (snd (getState lib env category privateKey s)) = b2"
      and gr: "\<not> isl (fst (getState lib env category privateKey s)) \<Longrightarrow> \<not> isl r2"
      using Pair Inr assms st1 sec
      by (auto simp: getState_def ensureSession_established payload_def[symmetric] Let_def
          split: sum.splits if_splits)
    have "\<not> isl r2 \<Longrightarrow> \<exists>b. b2 = Some b
                        \<and> sig_counter (cmd_signature (built_command b)) = counter st + 1
                        \<and> built_metadataItems b ! 5
                            = \<lparr>tag = TAG_COUNTER, val = Some (uint32ToBytes (counter st + 1))\<rparr>
                        \<and> serializeMetadata (built_metadataItems b) = Inr (built_metadata b)"
    proof -
      assume "\<not> isl r2"
      then obtain bytes where "r2 = Inr bytes" by (cases r2) auto
      with sec sendEncryptedCommand_success_built[of lib env payload s1 bytes]
      obtain b where b: "b2 = Some b" by auto
      from sendEncryptedCommand_built(4)[OF sec[unfolded b]] st1 b show ?thesis by auto
    qed
    with gs gb gr s2 show ?thesis by auto
  qed
qed

lemma getStates_counters:
  "sessionState s = Some st \<Longrightarrow> getStates lib envs category privateKey s = (Inr builts, s') \<Longrightarrow>
   length builts = length envs
   \<and> sessionState s' = Some (st\<lparr>counter := counter st + int (length envs)\<rparr>)
   \<and> (\<forall>k < length envs. \<exists>b. builts ! k = Some b
          \<and> sig_counter (cmd_signature (built_command b)) = counter st + 1 + int k
          \<and> built_metadataItems b ! 5
              = \<lparr>tag = TAG_COUNTER, val = Some (uint32ToBytes (counter st + 1 + int k))\<rparr>
          \<and> serializeMetadata (built_metadataItems b) = Inr (built_metadata b))"
proof (induction envs arbitrary: s st builts)
  case Nil
  then show ?case by simp
next
  case (Cons env envs)
  obtain r1 s1 b1 where g: "getState lib env category privateKey s = (r1, s1, b1)"
    by (cases "getState lib env category privateKey s") auto
  from Cons.prems(2) g obtain res where r1: "r1 = Inr res" by (cases r1) auto
  from Cons.prems(2) g r1 obtain bs where
    rest: "getStates lib envs category privateKey s1 = (Inr bs, s')" and builts: "builts = b1 # bs"
    by (auto split: prod.splits sum.splits)
  from getState_established[OF Cons.prems(1), of lib env category privateKey] g r1
  obtain b where s1: "sessionState s1 = Some (st\<lparr>counter := counter st + 1\<rparr>)"
    and b1: "b1 = Some b"
    and c: "sig_counter (cmd_signature (built_command b)) = counter st + 1"
       "built_metadataItems b ! 5 = \<lparr>tag = TAG_COUNTER, val = Some (uint32ToBytes (counter st + 1))\<rparr>"
       "serializeMetadata (built_metadataItems b) = Inr (built_metadata b)"
    by auto
  note ih = Cons.IH[OF s1 rest]
  have len: "length builts = length (env # envs)" using ih builts by simp
  have fin: "sessionState s' = Some (st\<lparr>counter := counter st + int (length (env # envs))\<rparr>)"
    using ih by (simp add: algebra_simps)
  have each: "\<forall>k < length (env # envs). \<exists>b. builts ! k = Some b
          \<and> sig_counter (cmd_signature (built_command b)) = counter st + 1 + int k
          \<and> built_metadataItems b ! 5
              = \<lparr>tag = TAG_COUNTER, val = Some (uint32ToBytes (counter st + 1 + int k))\<rparr>
          \<and> serializeMetadata (built_metadataItems b) = Inr (built_metadata b)"
  proof (intro allI impI)
    fix k assume k: "k < length (env # envs)"
    show "\<exists>b. builts ! k = Some b
          \<and> sig_counter (cmd_signature (built_command b)) = counter st + 1 + int k
          \<and> built_metadataItems b ! 5
              = \<lparr>tag = TAG_COUNTER, val = Some (uint32ToBytes (counter st + 1 + int k))\<rparr>
          \<and> serializeMetadata (built_metadataItems b) = Inr (built_metadata b)"
    proof (cases k)
      case 0
      then show ?thesis using builts b1 c by simp
    next
      case (Suc j)
      with k have "j < length envs" by simp
      with ih obtain b' where "bs ! j = Some b'"
        "sig_counter (cmd_signature (built_command b')) = counter (st\<lparr>counter := counter st + 1\<rparr>) + 1 + int j"
        "built_metadataItems b' ! 5 = \<lparr>tag = TAG_COUNTER, val = Some (uint32ToBytes (counter (st\<lparr>counter := counter st + 1\<rparr>) + 1 + int j))\<rparr>"
        "serializeMetadata (built_metadataItems b') = Inr (built_metadata b')"
        by blast
      then show ?thesis using builts Suc by (simp add: algebra_simps)
    qed
  qed
  from len fin each show ?case by blast
qed

lemma performHandshake_counter:
  assumes "fst (performHandshake lib env privateKey s) = Inr ()"
    "handshakeReply env = Inr message" "decodeSessionInfo lib message = Inr sessionInfo"
  shows "\<exists>st. sessionState (snd (performHandshake lib env privateKey s)) = Some st
              \<and> counter st = si_counter sessionInfo"
  using assms
  by (auto simp: performHandshake_def Let_def sendAndAwait_def
      split: sum.splits option.splits if_splits)

lemma connected_update_same: "connected s \<Longrightarrow> s\<lparr>connected := True\<rparr> = s"
  by (cases s) simp

lemma handleEncryptedResponse_decrypt_fails:
  assumes "sessionState s = Some session"
    "m_AES_GCM_ResponseData message = Some signatureData"
    "serializeMetadata (responseMetadataItems s message signatureData requestId) = Inr metadata"
    "lib_gcm_decrypt lib (aesKeyBytes (keys session))
       (case rd_nonce signatureData of None \<Rightarrow> [] | Some n \<Rightarrow> n)
       (sha256 lib metadata)
       ((case m_protobufMessageAsBytes message of None \<Rightarrow> [] | Some c \<Rightarrow> c)
        @ (case rd_tag signatureData of None \<Rightarrow> [] | Some t \<Rightarrow> t)) = None"
  shows "handleEncryptedResponse lib s message requestId = Inl DecryptFailed"
  using assms by (simp add: handleEncryptedResponse_def Let_def decryptAesGcm_def)

lemma getState_after_connect:
  assumes "sessionState s = Some st"
  shows "getState lib env category privateKey s
           = (if connected s then getState lib env category privateKey (s\<lparr>connected := True\<rparr>)
              else case transportConnect env of
                     Some e \<Rightarrow> (Inl e, s, None)
                   | None \<Rightarrow> getState lib env category privateKey (s\<lparr>connected := True\<rparr>))"
proof (cases "connected s")
  case True
  then show ?thesis by (simp add: connected_update_same)
next
  case False
  show ?thesis
  proof (cases "transportConnect env")
    case None
    have e1: "ensureSession lib env privateKey s = (Inr (), s\<lparr>connected := True\<rparr>)"
      using assms False None by (simp add: ensureSession_def connect_def)
    have e2: "ensureSession lib env privateKey (s\<lparr>connected := True\<rparr>) = (Inr (), s\<lparr>connected := True\<rparr>)"
      using assms by (simp add: ensureSession_def)
    show ?thesis using False None by (simp add: getState_def e1 e2)
  next
    case (Some e)
    have "ensureSession lib env privateKey s = (Inl e, s)"
      using False Some by (simp add: ensureSession_def connect_def)
    then show ?thesis using False Some by (simp add: getState_def)
  qed
qed

lemma getState_decrypt_propagates:
  assumes st: "sessionState s = Some st" and c: "connected s"
    and sec: "sendEncryptedCommand lib env (encodeGetVehicleData lib category) s = (r, s2, Some built)"
    and reply: "commandReply env = Inr message"
    and sd: "m_AES_GCM_ResponseData message = Some signatureData"
    and md: "serializeMetadata (responseMetadataItems s2 message signatureData (built_requestId built))
              = Inr metadata"
    and dec: "lib_gcm_decrypt lib (aesKeyBytes (keys st))
       (case rd_nonce signatureData of None \<Rightarrow> [] | Some n \<Rightarrow> n)
       (sha256 lib metadata)
       ((case m_protobufMessageAsBytes message of None \<Rightarrow> [] | Some c \<Rightarrow> c)
        @ (case rd_tag signatureData of None \<Rightarrow> [] | Some t \<Rightarrow> t)) = None"
  shows "s2 = s\<lparr>sessionState := Some (st\<lparr>counter := counter st + 1\<rparr>)\<rparr>"
    and "getState lib env category privateKey s = (Inl DecryptFailed, s2, Some built)"
proof -
  show s2: "s2 = s\<lparr>sessionState := Some (st\<lparr>counter := counter st + 1\<rparr>)\<rparr>"
    using sendEncryptedCommand_state[OF st, of lib env "encodeGetVehicleData lib category"] sec
    by simp
  have st2: "sessionState s2 = Some (st\<lparr>counter := counter st + 1\<rparr>)" and c2: "connected s2"
    using s2 c by simp_all
  have "handleEncryptedResponse lib s2 message (built_requestId built) = Inl DecryptFailed"
    using handleEncryptedResponse_decrypt_fails[OF st2 sd md] dec by simp
  moreover have "r = sendAndAwait s2 (commandReply env)
               (\<lambda>message. handleEncryptedResponse lib s2 message (built_requestId built))"
    by (rule sendEncryptedCommand_built(3)[OF sec])
  ultimately have r: "r = Inl DecryptFailed" using reply c2 by (simp add: sendAndAwait_def)
  show "getState lib env category privateKey s = (Inl DecryptFailed, s2, Some built)"
    using st c sec r by (simp add: getState_def ensureSession_connected)
qed

lemma ensureSession_keeps_state:
  assumes "sessionState s \<noteq> None"
  shows "sessionState (snd (ensureSession lib env privateKey s)) \<noteq> None"
proof -
  from assms obtain st where st: "sessionState s = Some st" by auto
  show ?thesis using st connect_keeps_state[of env s]
    by (simp add: ensureSession_established)
qed

section \<open>The toy session evaluated\<close>

lemma toy_handshake:
  "performHandshake toyLibrary
     (toyEnv\<lparr>handshakeReply := Inr (toySessionInfoMessage [7, 100, 4, 9] (replicate 32 29))\<rparr>)
     toyPrivateKey toySession = (Inr (), toyEstablished)"
  by code_simp

lemma toy_two_calls:
  "\<not> isl (fst (getStates toyLibrary
       [toyEnv\<lparr>commandReply := Inr (toyResponseMessage (replicate 16 110))\<rparr>,
        toyEnv\<lparr>commandReply := Inr (toyResponseMessage (replicate 16 110))\<rparr>]
       Drive toyPrivateKey toyEstablished))"
  by code_simp

lemma toy_handshake_facts:
  "connected toySession"
  "exportPublicKeyFromPrivate toyLibrary toyPrivateKey = Inr [4, 1, 2, 4, 1, 2, 4]"
  "m_sessionInfo (toySessionInfoMessage [7, 101, 4, 9] (replicate 32 29)) = Some [7, 101, 4, 9]"
  "decodeSessionInfo toyLibrary (toySessionInfoMessage [7, 101, 4, 9] (replicate 32 29))
     = Inr \<lparr>si_counter = 7, si_epoch = [7, 101], si_clockTime = 101, si_publicKey = [4, 9]\<rparr>"
  "m_sessionInfoTag (toySessionInfoMessage [7, 101, 4, 9] (replicate 32 29)) = Some (replicate 32 29)"
  "deriveSessionKeys toyLibrary toyPrivateKey [4, 9]
     = Inr \<lparr>sharedSecret = [1, 2, 4, 4, 9],
            aesKeyBytes = replicate 16 20,
            sessionInfoKey = replicate 32 16\<rparr>"
  "length (vin toySession) \<le> 255"
  "length (handshakeUuid toyEnv) = 16"
  "hmacSha256 toyLibrary (replicate 32 16)
     ([0, 1, 6] @ [2, of_nat (length (vin toySession))] @ textEncoder_encode (vin toySession)
      @ [6, 16] @ handshakeUuid toyEnv @ [255] @ [7, 101, 4, 9]) \<noteq> replicate 32 29"
  by code_simp+

lemma toy_response_facts:
  "sessionState toyEstablished
     = Some \<lparr>keys = \<lparr>sharedSecret = [1, 2, 4, 4, 9],
                    aesKeyBytes = replicate 16 20,
                    sessionInfoKey = replicate 32 16\<rparr>,
           counter = 7, epoch = [7, 100], vehiclePublicKey = [4, 9],
           clientPublicKey = [4, 1, 2, 4, 1, 2, 4], timeZeroMs = 50000\<rparr>"
  "m_AES_GCM_ResponseData (toyResponseMessage (replicate 16 110))
     = Some \<lparr>rd_nonce = Some (replicate 12 3), rd_counter = Some 1, rd_tag = Some (replicate 16 110)\<rparr>"
  "length (vin toyEstablished) \<le> 255"
  "length (replicate 16 (7 :: byte)) = 16"
  by code_simp+

lemma toy_response_decrypt:
  "decryptAesGcm toyLibrary (replicate 16 20) (replicate 12 3) ([0, 42] @ replicate 16 110)
     (sha256 toyLibrary
        ([0, 1, 9] @ [1, 1, 3] @ [2, 17] @ textEncoder_encode ''5YJ3E1EA7JF000000''
         @ [5, 4] @ [0, 0, 0, 1] @ [7, 4] @ [0, 0, 0, 0] @ [8, 17, 5] @ replicate 16 7
         @ [9, 4] @ [0, 0, 0, 0] @ [255]))
   = Inr [0, 42]"
  by code_simp

lemma toy_response_args:
  "(case rd_nonce \<lparr>rd_nonce = Some (replicate 12 3), rd_counter = Some 1, rd_tag = Some (replicate 16 110)\<rparr> of None \<Rightarrow> [] | Some n \<Rightarrow> n) = replicate 12 3"
  "(case m_protobufMessageAsBytes (toyResponseMessage (replicate 16 110)) of None \<Rightarrow> [] | Some c \<Rightarrow> c) = [0, 42]"
  "toByte (case m_fromDestinationDomain (toyResponseMessage (replicate 16 110)) of
                                     None \<Rightarrow> domain toyEstablished | Some dm \<Rightarrow> dm) = 3"
  "of_nat (length (vin toyEstablished)) = (17 :: byte)"
  "vin toyEstablished = ''5YJ3E1EA7JF000000''"
  "uint32ToBytes (case m_flags (toyResponseMessage (replicate 16 110)) of None \<Rightarrow> 0 | Some f \<Rightarrow> f) = [0, 0, 0, 0]"
  "uint32ToBytes (case m_signedMessageFault (toyResponseMessage (replicate 16 110)) of None \<Rightarrow> 0 | Some f \<Rightarrow> f) = [0, 0, 0, 0]"
  "uint32ToBytes 1 = [0, 0, 0, 1]"
  by code_simp+

lemma toy_decrypt_failure_facts:
  "sessionState toyEstablished
     = Some \<lparr>keys = \<lparr>sharedSecret = [1, 2, 4, 4, 9],
                    aesKeyBytes = replicate 16 20,
                    sessionInfoKey = replicate 32 16\<rparr>,
           counter = 7, epoch = [7, 100], vehiclePublicKey = [4, 9],
           clientPublicKey = [4, 1, 2, 4, 1, 2, 4], timeZeroMs = 50000\<rparr>"
  "sendEncryptedCommand toyLibrary
       (toyEnv\<lparr>commandReply := Inr (toyResponseMessage (replicate 16 0))\<rparr>)
       (encodeGetVehicleData toyLibrary Drive) (toyEstablished\<lparr>connected := True\<rparr>)
     = (fst (sendEncryptedCommand toyLibrary
               (toyEnv\<lparr>commandReply := Inr (toyResponseMessage (replicate 16 0))\<rparr>)
               (encodeGetVehicleData toyLibrary Drive) (toyEstablished\<lparr>connected := True\<rparr>)),
        fst (snd (sendEncryptedCommand toyLibrary
               (toyEnv\<lparr>commandReply := Inr (toyResponseMessage (replicate 16 0))\<rparr>)
               (encodeGetVehicleData toyLibrary Drive) (toyEstablished\<lparr>connected := True\<rparr>))),
        Some (the (snd (snd (sendEncryptedCommand toyLibrary
               (toyEnv\<lparr>commandReply := Inr (toyResponseMessage (replicate 16 0))\<rparr>)
               (encodeGetVehicleData toyLibrary Drive) (toyEstablished\<lparr>connected := True\<rparr>))))))"
  "commandReply (toyEnv\<lparr>commandReply := Inr (toyResponseMessage (replicate 16 0))\<rparr>)
     = Inr (toyResponseMessage (replicate 16 0))"
  "m_AES_GCM_ResponseData (toyResponseMessage (replicate 16 0))
     = Some \<lparr>rd_nonce = Some (replicate 12 3), rd_counter = Some 1, rd_tag = Some (replicate 16 0)\<rparr>"
  "serializeMetadata
     (responseMetadataItems
        (fst (snd (sendEncryptedCommand toyLibrary
               (toyEnv\<lparr>commandReply := Inr (toyResponseMessage (replicate 16 0))\<rparr>)
               (encodeGetVehicleData toyLibrary Drive) (toyEstablished\<lparr>connected := True\<rparr>))))
        (toyResponseMessage (replicate 16 0))
        \<lparr>rd_nonce = Some (replicate 12 3), rd_counter = Some 1, rd_tag = Some (replicate 16 0)\<rparr>
        (built_requestId (the (snd (snd (sendEncryptedCommand toyLibrary
               (toyEnv\<lparr>commandReply := Inr (toyResponseMessage (replicate 16 0))\<rparr>)
               (encodeGetVehicleData toyLibrary Drive) (toyEstablished\<lparr>connected := True\<rparr>)))))))
     = Inr ([0, 1, 9] @ [1, 1, 3] @ [2, 17] @ textEncoder_encode ''5YJ3E1EA7JF000000''
            @ [5, 4] @ [0, 0, 0, 1] @ [7, 4] @ [0, 0, 0, 0] @ [8, 17, 5] @ replicate 16 7
            @ [9, 4] @ [0, 0, 0, 0] @ [255])"
  "lib_gcm_decrypt toyLibrary
     (aesKeyBytes (keys \<lparr>keys = \<lparr>sharedSecret = [1, 2, 4, 4, 9],
                    aesKeyBytes = replicate 16 20,
                    sessionInfoKey = replicate 32 16\<rparr>,
           counter = 7, epoch = [7, 100], vehiclePublicKey = [4, 9],
           clientPublicKey = [4, 1, 2, 4, 1, 2, 4], timeZeroMs = 50000\<rparr>))
     (case rd_nonce \<lparr>rd_nonce = Some (replicate 12 3), rd_counter = Some 1,
                     rd_tag = Some (replicate 16 0)\<rparr> of None \<Rightarrow> [] | Some n \<Rightarrow> n)
     (sha256 toyLibrary
        ([0, 1, 9] @ [1, 1, 3] @ [2, 17] @ textEncoder_encode ''5YJ3E1EA7JF000000''
            @ [5, 4] @ [0, 0, 0, 1] @ [7, 4] @ [0, 0, 0, 0] @ [8, 17, 5] @ replicate 16 7
            @ [9, 4] @ [0, 0, 0, 0] @ [255]))
     ((case m_protobufMessageAsBytes (toyResponseMessage (replicate 16 0)) of
         None \<Rightarrow> [] | Some c \<Rightarrow> c)
      @ (case rd_tag \<lparr>rd_nonce = Some (replicate 12 3), rd_counter = Some 1,
                      rd_tag = Some (replicate 16 0)\<rparr> of None \<Rightarrow> [] | Some t \<Rightarrow> t))
     = None"
  "connected toyEstablished"
  "transportConnect toyEnv = None"
  by code_simp+

lemma toy_accepts_facts:
  "handshakeReply (toyEnv\<lparr>handshakeReply := Inr (toySessionInfoMessage [7, 100, 4, 9] (replicate 32 29))\<rparr>)
     = Inr (toySessionInfoMessage [7, 100, 4, 9] (replicate 32 29))"
  "decodeSessionInfo toyLibrary (toySessionInfoMessage [7, 100, 4, 9] (replicate 32 29))
     = Inr \<lparr>si_counter = 7, si_epoch = [7, 100], si_clockTime = 100, si_publicKey = [4, 9]\<rparr>"
  by code_simp+

section \<open>Claims about the session\<close>

text \<open>
  C1. In a handshake whose response carries session info and a tag, once the session
  info is decoded and the keys are derived, \<open>performHandshake\<close> compares
  \<open>HMAC_SHA256(sessionInfoKey, metadata || sessionInfoBytes)\<close> with the tag, where
  \<open>metadata\<close> is the serialization of SIGNATURE_TYPE = HMAC (6), PERSONALIZATION = VIN
  and CHALLENGE = uuid. When they are equal the session state is set from the session
  info; when they differ the call fails with the authentication error and the session
  is what it was. Every failing handshake leaves the session unchanged.
\<close>

theorem performHandshake_authenticates:
  "(connected s
      \<and> exportPublicKeyFromPrivate lib privateKey = Inr clientKey
      \<and> handshakeReply env = Inr message
      \<and> m_sessionInfo message = Some sessionInfoBytes
      \<and> decodeSessionInfo lib message = Inr sessionInfo
      \<and> m_sessionInfoTag message = Some tagBytes
      \<and> deriveSessionKeys lib privateKey (si_publicKey sessionInfo) = Inr ks
      \<and> length (vin s) \<le> 255
      \<and> length (handshakeUuid env) = 16
     \<longrightarrow> performHandshake lib env privateKey s =
          (if hmacSha256 lib (sessionInfoKey ks)
                ([0, 1, 6] @ [2, of_nat (length (vin s))] @ textEncoder_encode (vin s)
                 @ [6, 16] @ handshakeUuid env @ [255] @ sessionInfoBytes) = tagBytes
           then (Inr (),
                 s\<lparr>sessionState := Some
                     \<lparr>keys = ks,
                      counter = si_counter sessionInfo,
                      epoch = si_epoch sessionInfo,
                      vehiclePublicKey = si_publicKey sessionInfo,
                      clientPublicKey = clientKey,
                      timeZeroMs = handshakeNow env - si_clockTime sessionInfo * 1000\<rparr>\<rparr>)
           else (Inl SessionInfoAuthFailed, s)))
   \<and> (isl (fst (performHandshake lib env privateKey s))
        \<longrightarrow> snd (performHandshake lib env privateKey s) = s)"
  using performHandshake_cases[of s lib privateKey clientKey env message sessionInfoBytes
          sessionInfo tagBytes ks]
        performHandshake_failure_keeps[of lib env privateKey s]
  by blast

text \<open>
  The theorem at the toy vehicle's session info with one byte changed after the tag
  was computed: the handshake fails and the session state stays unset.
\<close>

theorem performHandshake_authenticates_witness:
  "performHandshake toyLibrary
     (toyEnv\<lparr>handshakeReply := Inr (toySessionInfoMessage [7, 101, 4, 9] (replicate 32 29))\<rparr>)
     toyPrivateKey toySession = (Inl SessionInfoAuthFailed, toySession)
   \<and> sessionState toySession = None"
  using performHandshake_authenticates
          [of toySession toyLibrary toyPrivateKey "[4, 1, 2, 4, 1, 2, 4]"
              "toyEnv\<lparr>handshakeReply := Inr (toySessionInfoMessage [7, 101, 4, 9] (replicate 32 29))\<rparr>"
              "toySessionInfoMessage [7, 101, 4, 9] (replicate 32 29)" "[7, 101, 4, 9]"
              "\<lparr>si_counter = 7, si_epoch = [7, 101], si_clockTime = 101, si_publicKey = [4, 9]\<rparr>"
              "replicate 32 29"
              "\<lparr>sharedSecret = [1, 2, 4, 4, 9], aesKeyBytes = replicate 16 20,
                sessionInfoKey = replicate 32 16\<rparr>"]
        toy_handshake_facts
  by (simp add: toyEnv_def toySession_def)

text \<open>
  C3. Where the session is established, the response carries AES-GCM response data
  and the request id is the byte 5 followed by the request's 16-byte tag, the
  post-handler decrypts with the AAD \<open>SHA-256(metadata)\<close>, \<open>metadata\<close> being, in this
  order, SIGNATURE_TYPE = 9, DOMAIN (of \<open>fromDestination\<close>, else the session's),
  PERSONALIZATION = VIN, COUNTER of the response data (big-endian, 0 when absent),
  FLAGS of the message (always present, 0 when absent), REQUEST_HASH = the request id,
  FAULT (0 when absent), and the end byte. \<open>sendEncryptedCommand\<close> hands the
  post-handler exactly such a request id, made of the tag of the command it built.
\<close>

theorem handleEncryptedResponse_aad_bytes:
  "(sessionState s = Some session
      \<and> m_AES_GCM_ResponseData message = Some signatureData
      \<and> length (vin s) \<le> 255
      \<and> requestId = 5 # requestTag \<and> length requestTag = 16
     \<longrightarrow> handleEncryptedResponse lib s message requestId
          = decryptAesGcm lib (aesKeyBytes (keys session))
              (case rd_nonce signatureData of None \<Rightarrow> [] | Some n \<Rightarrow> n)
              ((case m_protobufMessageAsBytes message of None \<Rightarrow> [] | Some c \<Rightarrow> c)
               @ (case rd_tag signatureData of None \<Rightarrow> [] | Some t \<Rightarrow> t))
              (sha256 lib
                 ([0, 1, 9]
                  @ [1, 1, toByte (case m_fromDestinationDomain message of
                                     None \<Rightarrow> domain s | Some dm \<Rightarrow> dm)]
                  @ [2, of_nat (length (vin s))] @ textEncoder_encode (vin s)
                  @ [5, 4] @ uint32ToBytes (case rd_counter signatureData of None \<Rightarrow> 0 | Some c \<Rightarrow> c)
                  @ [7, 4] @ uint32ToBytes (case m_flags message of None \<Rightarrow> 0 | Some f \<Rightarrow> f)
                  @ [8, 17, 5] @ requestTag
                  @ [9, 4] @ uint32ToBytes (case m_signedMessageFault message of
                                              None \<Rightarrow> 0 | Some f \<Rightarrow> f)
                  @ [255])))
   \<and> (sendEncryptedCommand lib env plaintext s0 = (r, s1, Some built)
        \<longrightarrow> built_requestId built = 5 # sig_tag (cmd_signature (built_command built))
            \<and> length (sig_tag (cmd_signature (built_command built))) = 16
            \<and> r = sendAndAwait s1 (commandReply env)
                     (\<lambda>message. handleEncryptedResponse lib s1 message (built_requestId built)))"
  using handleEncryptedResponse_aad[of s session message signatureData requestId requestTag lib]
        sendEncryptedCommand_built(1,2,3)[of lib env plaintext s0 r s1 built]
  by blast

text \<open>The theorem at the toy vehicle's response to the first command of the toy session.\<close>

theorem handleEncryptedResponse_aad_bytes_witness:
  "handleEncryptedResponse toyLibrary toyEstablished (toyResponseMessage (replicate 16 110))
     (5 # replicate 16 7) = Inr [0, 42]"
proof -
  from handleEncryptedResponse_aad_bytes
         [of toyEstablished _ "toyResponseMessage (replicate 16 110)" _ "5 # replicate 16 7"
             "replicate 16 7" toyLibrary]
       toy_response_facts
  have "handleEncryptedResponse toyLibrary toyEstablished (toyResponseMessage (replicate 16 110))
          (5 # replicate 16 7)
        = decryptAesGcm toyLibrary (replicate 16 20) (replicate 12 3) ([0, 42] @ replicate 16 110)
     (sha256 toyLibrary
        ([0, 1, 9] @ [1, 1, 3] @ [2, 17] @ textEncoder_encode ''5YJ3E1EA7JF000000''
         @ [5, 4] @ [0, 0, 0, 1] @ [7, 4] @ [0, 0, 0, 0] @ [8, 17, 5] @ replicate 16 7
         @ [9, 4] @ [0, 0, 0, 0] @ [255]))"
    by (simp add: toy_response_args)
  then show ?thesis by (simp only: toy_response_decrypt)
qed

text \<open>
  C2 (as amended). Take an established session, the command \<open>getState\<close> builds for
  it, and a response whose ciphertext the library's AES-GCM rejects in the
  post-handler. Then \<open>getState\<close> fails with the decryption error, so the error
  reaches the caller; the session state is kept, with the counter incremented for the
  failed command; and the next \<open>ensureSession\<close> returns at once, whatever the
  environment: no handshake takes place. (Where the session first has to reconnect
  and the transport refuses, \<open>getState\<close> fails with the transport's error before
  any command is sent, and the session is untouched.) Moreover \<open>connect\<close>,
  \<open>ensureSession\<close>, \<open>sendEncryptedCommand\<close> and \<open>getState\<close> never drop the
  state of an established session, and \<open>disconnect\<close> does.
\<close>

theorem getState_decrypt_failure_keeps_session:
  "(sessionState s = Some st
      \<and> sendEncryptedCommand lib env (encodeGetVehicleData lib category) (s\<lparr>connected := True\<rparr>)
          = (r, s2, Some built)
      \<and> commandReply env = Inr message
      \<and> m_AES_GCM_ResponseData message = Some signatureData
      \<and> serializeMetadata (responseMetadataItems s2 message signatureData (built_requestId built))
          = Inr metadata
      \<and> lib_gcm_decrypt lib (aesKeyBytes (keys st))
           (case rd_nonce signatureData of None \<Rightarrow> [] | Some n \<Rightarrow> n)
           (sha256 lib metadata)
           ((case m_protobufMessageAsBytes message of None \<Rightarrow> [] | Some c \<Rightarrow> c)
            @ (case rd_tag signatureData of None \<Rightarrow> [] | Some t \<Rightarrow> t)) = None
     \<longrightarrow> s2 = s\<lparr>connected := True, sessionState := Some (st\<lparr>counter := counter st + 1\<rparr>)\<rparr>
         \<and> getState lib env category privateKey s
             = (if connected s then (Inl DecryptFailed, s2, Some built)
                else case transportConnect env of
                       Some e \<Rightarrow> (Inl e, s, None)
                     | None \<Rightarrow> (Inl DecryptFailed, s2, Some built))
         \<and> (\<forall>env'. ensureSession lib env' privateKey s2 = (Inr (), s2)))
   \<and> (sessionState s \<noteq> None
        \<longrightarrow> sessionState (snd (connect env s)) \<noteq> None
            \<and> sessionState (snd (ensureSession lib env privateKey s)) \<noteq> None
            \<and> sessionState (fst (snd (sendEncryptedCommand lib env plaintext s))) \<noteq> None
            \<and> sessionState (fst (snd (getState lib env category privateKey s))) \<noteq> None)
   \<and> sessionState (disconnect s) = None"
proof (intro conjI)
  show "sessionState s = Some st
      \<and> sendEncryptedCommand lib env (encodeGetVehicleData lib category) (s\<lparr>connected := True\<rparr>)
          = (r, s2, Some built)
      \<and> commandReply env = Inr message
      \<and> m_AES_GCM_ResponseData message = Some signatureData
      \<and> serializeMetadata (responseMetadataItems s2 message signatureData (built_requestId built))
          = Inr metadata
      \<and> lib_gcm_decrypt lib (aesKeyBytes (keys st))
           (case rd_nonce signatureData of None \<Rightarrow> [] | Some n \<Rightarrow> n)
           (sha256 lib metadata)
           ((case m_protobufMessageAsBytes message of None \<Rightarrow> [] | Some c \<Rightarrow> c)
            @ (case rd_tag signatureData of None \<Rightarrow> [] | Some t \<Rightarrow> t)) = None
     \<longrightarrow> s2 = s\<lparr>connected := True, sessionState := Some (st\<lparr>counter := counter st + 1\<rparr>)\<rparr>
         \<and> getState lib env category privateKey s
             = (if connected s then (Inl DecryptFailed, s2, Some built)
                else case transportConnect env of
                       Some e \<Rightarrow> (Inl e, s, None)
                     | None \<Rightarrow> (Inl DecryptFailed, s2, Some built))
         \<and> (\<forall>env'. ensureSession lib env' privateKey s2 = (Inr (), s2))"
  proof (rule impI)
    assume a: "sessionState s = Some st
      \<and> sendEncryptedCommand lib env (encodeGetVehicleData lib category) (s\<lparr>connected := True\<rparr>)
          = (r, s2, Some built)
      \<and> commandReply env = Inr message
      \<and> m_AES_GCM_ResponseData message = Some signatureData
      \<and> serializeMetadata (responseMetadataItems s2 message signatureData (built_requestId built))
          = Inr metadata
      \<and> lib_gcm_decrypt lib (aesKeyBytes (keys st))
           (case rd_nonce signatureData of None \<Rightarrow> [] | Some n \<Rightarrow> n)
           (sha256 lib metadata)
           ((case m_protobufMessageAsBytes message of None \<Rightarrow> [] | Some c \<Rightarrow> c)
            @ (case rd_tag signatureData of None \<Rightarrow> [] | Some t \<Rightarrow> t)) = None"
    define s1 where "s1 = s\<lparr>connected := True\<rparr>"
    have st1: "sessionState s1 = Some st" and c1: "connected s1"
      using a by (simp_all add: s1_def)
    from a have sec: "sendEncryptedCommand lib env (encodeGetVehicleData lib category) s1
          = (r, s2, Some built)"
      and reply: "commandReply env = Inr message"
      and sd: "m_AES_GCM_ResponseData message = Some signatureData"
      and md: "serializeMetadata (responseMetadataItems s2 message signatureData (built_requestId built))
          = Inr metadata"
      and dec: "lib_gcm_decrypt lib (aesKeyBytes (keys st))
           (case rd_nonce signatureData of None \<Rightarrow> [] | Some n \<Rightarrow> n)
           (sha256 lib metadata)
           ((case m_protobufMessageAsBytes message of None \<Rightarrow> [] | Some c \<Rightarrow> c)
            @ (case rd_tag signatureData of None \<Rightarrow> [] | Some t \<Rightarrow> t)) = None"
      by (simp_all add: s1_def)
    note p = getState_decrypt_propagates[OF st1 c1 sec reply sd md dec]
    have s2: "s2 = s\<lparr>connected := True, sessionState := Some (st\<lparr>counter := counter st + 1\<rparr>)\<rparr>"
      using p(1) by (simp add: s1_def)
    have g: "getState lib env category privateKey s
             = (if connected s then (Inl DecryptFailed, s2, Some built)
                else case transportConnect env of
                       Some e \<Rightarrow> (Inl e, s, None)
                     | None \<Rightarrow> (Inl DecryptFailed, s2, Some built))"
      using getState_after_connect[of s st lib env category privateKey] a p(2)
      by (simp add: s1_def split: option.splits)
    have st2: "sessionState s2 = Some (st\<lparr>counter := counter st + 1\<rparr>)" and c2: "connected s2"
      using s2 by simp_all
    have n: "\<forall>env'. ensureSession lib env' privateKey s2 = (Inr (), s2)"
      using ensureSession_connected[OF st2 c2] by blast
    from s2 g n
    show "s2 = s\<lparr>connected := True, sessionState := Some (st\<lparr>counter := counter st + 1\<rparr>)\<rparr>
         \<and> getState lib env category privateKey s
             = (if connected s then (Inl DecryptFailed, s2, Some built)
                else case transportConnect env of
                       Some e \<Rightarrow> (Inl e, s, None)
                     | None \<Rightarrow> (Inl DecryptFailed, s2, Some built))
         \<and> (\<forall>env'. ensureSession lib env' privateKey s2 = (Inr (), s2))"
      by blast
  qed
next
  show "sessionState s \<noteq> None
        \<longrightarrow> sessionState (snd (connect env s)) \<noteq> None
            \<and> sessionState (snd (ensureSession lib env privateKey s)) \<noteq> None
            \<and> sessionState (fst (snd (sendEncryptedCommand lib env plaintext s))) \<noteq> None
            \<and> sessionState (fst (snd (getState lib env category privateKey s))) \<noteq> None"
  proof (rule impI)
    assume ne: "sessionState s \<noteq> None"
    then obtain st' where st': "sessionState s = Some st'" by auto
    have 1: "sessionState (snd (connect env s)) \<noteq> None"
      using ne by (simp add: connect_keeps_state)
    have 2: "sessionState (snd (ensureSession lib env privateKey s)) \<noteq> None"
      by (rule ensureSession_keeps_state[OF ne])
    have 3: "sessionState (fst (snd (sendEncryptedCommand lib env plaintext s))) \<noteq> None"
      using sendEncryptedCommand_state[OF st', of lib env plaintext] by simp
    have 4: "sessionState (fst (snd (getState lib env category privateKey s))) \<noteq> None"
      using getState_established[OF st', of lib env category privateKey] by auto
    from 1 2 3 4 show "sessionState (snd (connect env s)) \<noteq> None
            \<and> sessionState (snd (ensureSession lib env privateKey s)) \<noteq> None
            \<and> sessionState (fst (snd (sendEncryptedCommand lib env plaintext s))) \<noteq> None
            \<and> sessionState (fst (snd (getState lib env category privateKey s))) \<noteq> None"
      by blast
  qed
next
  show "sessionState (disconnect s) = None" by (simp add: disconnect_def)
qed

text \<open>
  The theorem at the toy session and a response whose tag is wrong: the call fails
  with the decryption error, the counter has gone from 7 to 8, and the next
  \<open>ensureSession\<close> succeeds where a handshake request would time out.
\<close>

theorem getState_decrypt_failure_keeps_session_witness:
  "fst (getState toyLibrary (toyEnv\<lparr>commandReply := Inr (toyResponseMessage (replicate 16 0))\<rparr>)
          Drive toyPrivateKey toyEstablished) = Inl DecryptFailed
   \<and> map_option counter
        (sessionState (fst (snd (getState toyLibrary
           (toyEnv\<lparr>commandReply := Inr (toyResponseMessage (replicate 16 0))\<rparr>)
           Drive toyPrivateKey toyEstablished)))) = Some 8
   \<and> fst (ensureSession toyLibrary toyEnv toyPrivateKey
        (fst (snd (getState toyLibrary
           (toyEnv\<lparr>commandReply := Inr (toyResponseMessage (replicate 16 0))\<rparr>)
           Drive toyPrivateKey toyEstablished)))) = Inr ()"
proof -
  let ?env = "toyEnv\<lparr>commandReply := Inr (toyResponseMessage (replicate 16 0))\<rparr>"
  let ?sent = "sendEncryptedCommand toyLibrary ?env (encodeGetVehicleData toyLibrary Drive)
                 (toyEstablished\<lparr>connected := True\<rparr>)"
  let ?st = "\<lparr>keys = \<lparr>sharedSecret = [1, 2, 4, 4, 9],
                    aesKeyBytes = replicate 16 20,
                    sessionInfoKey = replicate 32 16\<rparr>,
           counter = 7, epoch = [7, 100], vehiclePublicKey = [4, 9],
           clientPublicKey = [4, 1, 2, 4, 1, 2, 4], timeZeroMs = 50000\<rparr>"
  note t = getState_decrypt_failure_keeps_session
      [where s = toyEstablished and st = ?st and lib = toyLibrary and env = ?env
         and category = Drive and r = "fst ?sent" and ?s2.0 = "fst (snd ?sent)"
         and built = "the (snd (snd ?sent))"
         and message = "toyResponseMessage (replicate 16 0)"
         and signatureData = "\<lparr>rd_nonce = Some (replicate 12 3), rd_counter = Some 1,
                                 rd_tag = Some (replicate 16 0)\<rparr>"
         and metadata = "[0, 1, 9] @ [1, 1, 3] @ [2, 17] @ textEncoder_encode ''5YJ3E1EA7JF000000''
            @ [5, 4] @ [0, 0, 0, 1] @ [7, 4] @ [0, 0, 0, 0] @ [8, 17, 5] @ replicate 16 7
            @ [9, 4] @ [0, 0, 0, 0] @ [255]"
         and privateKey = toyPrivateKey,
       THEN conjunct1, THEN mp]
  have hyps: "sessionState toyEstablished = Some ?st
      \<and> ?sent = (fst ?sent, fst (snd ?sent), Some (the (snd (snd ?sent))))
      \<and> commandReply ?env = Inr (toyResponseMessage (replicate 16 0))
      \<and> m_AES_GCM_ResponseData (toyResponseMessage (replicate 16 0))
          = Some \<lparr>rd_nonce = Some (replicate 12 3), rd_counter = Some 1,
                  rd_tag = Some (replicate 16 0)\<rparr>
      \<and> serializeMetadata (responseMetadataItems (fst (snd ?sent))
            (toyResponseMessage (replicate 16 0))
            \<lparr>rd_nonce = Some (replicate 12 3), rd_counter = Some 1, rd_tag = Some (replicate 16 0)\<rparr>
            (built_requestId (the (snd (snd ?sent)))))
          = Inr ([0, 1, 9] @ [1, 1, 3] @ [2, 17] @ textEncoder_encode ''5YJ3E1EA7JF000000''
            @ [5, 4] @ [0, 0, 0, 1] @ [7, 4] @ [0, 0, 0, 0] @ [8, 17, 5] @ replicate 16 7
            @ [9, 4] @ [0, 0, 0, 0] @ [255])
      \<and> lib_gcm_decrypt toyLibrary (aesKeyBytes (keys ?st))
           (case rd_nonce \<lparr>rd_nonce = Some (replicate 12 3), rd_counter = Some 1,
                     rd_tag = Some (replicate 16 0)\<rparr> of None \<Rightarrow> [] | Some n \<Rightarrow> n)
           (sha256 toyLibrary
              ([0, 1, 9] @ [1, 1, 3] @ [2, 17] @ textEncoder_encode ''5YJ3E1EA7JF000000''
            @ [5, 4] @ [0, 0, 0, 1] @ [7, 4] @ [0, 0, 0, 0] @ [8, 17, 5] @ replicate 16 7
            @ [9, 4] @ [0, 0, 0, 0] @ [255]))
           ((case m_protobufMessageAsBytes (toyResponseMessage (replicate 16 0)) of
               None \<Rightarrow> [] | Some c \<Rightarrow> c)
            @ (case rd_tag \<lparr>rd_nonce = Some (replicate 12 3), rd_counter = Some 1,
                      rd_tag = Some (replicate 16 0)\<rparr> of None \<Rightarrow> [] | Some t \<Rightarrow> t)) = None"
    using toy_decrypt_failure_facts(1-6) by (intro conjI)
  note u = t[OF hyps]
  note s2 = u[THEN conjunct1]
  have g: "getState toyLibrary ?env Drive toyPrivateKey toyEstablished
              = (Inl DecryptFailed, fst (snd ?sent), Some (the (snd (snd ?sent))))"
    using u[THEN conjunct2, THEN conjunct1] toy_decrypt_failure_facts(7)
    by (simp only: if_True)
  note n = u[THEN conjunct2, THEN conjunct2, THEN spec, of toyEnv]
  have c: "map_option counter (sessionState (fst (snd ?sent))) = Some 8"
    by (subst s2) simp
  show ?thesis by (simp only: g fst_conv snd_conv c n simp_thms)
qed

text \<open>
  C2 as stated fails: after the decryption error the session state is still there,
  and the next \<open>ensureSession\<close> succeeds in an environment where a handshake request
  would time out.
\<close>

theorem getState_decrypt_failure_counterexample:
  "fst (getState toyLibrary (toyEnv\<lparr>commandReply := Inr (toyResponseMessage (replicate 16 0))\<rparr>)
          Drive toyPrivateKey toyEstablished) = Inl DecryptFailed
   \<and> sessionState (fst (snd (getState toyLibrary
           (toyEnv\<lparr>commandReply := Inr (toyResponseMessage (replicate 16 0))\<rparr>)
           Drive toyPrivateKey toyEstablished))) \<noteq> None
   \<and> handshakeReply toyEnv = Inl (LibraryError ''Request timed out'')
   \<and> fst (ensureSession toyLibrary toyEnv toyPrivateKey
        (fst (snd (getState toyLibrary
           (toyEnv\<lparr>commandReply := Inr (toyResponseMessage (replicate 16 0))\<rparr>)
           Drive toyPrivateKey toyEstablished)))) = Inr ()"
  by code_simp

text \<open>
  C6 (as amended). After a successful handshake whose session info carries the counter
  \<open>c\<close>, a run of \<open>N\<close> successful \<open>getState\<close> calls builds \<open>N\<close> commands, and
  the \<open>k\<close>-th of them (from 0) carries \<open>c + 1 + k\<close> as the counter of its signature
  data and, encoded by \<open>uint32ToBytes\<close>, as the COUNTER item of the metadata it
  serialized.
\<close>

theorem getStates_counters_from_handshake:
  "fst (performHandshake lib env0 privateKey s0) = Inr ()
     \<and> handshakeReply env0 = Inr message
     \<and> decodeSessionInfo lib message = Inr sessionInfo
     \<and> getStates lib envs category privateKey (snd (performHandshake lib env0 privateKey s0))
          = (Inr builts, s')
   \<longrightarrow> length builts = length envs
       \<and> (\<forall>k < length envs. \<exists>b. builts ! k = Some b
             \<and> sig_counter (cmd_signature (built_command b)) = si_counter sessionInfo + 1 + int k
             \<and> built_metadataItems b ! 5
                 = \<lparr>tag = TAG_COUNTER,
                    val = Some (uint32ToBytes (si_counter sessionInfo + 1 + int k))\<rparr>
             \<and> serializeMetadata (built_metadataItems b) = Inr (built_metadata b))"
proof (intro impI)
  assume a: "fst (performHandshake lib env0 privateKey s0) = Inr ()
     \<and> handshakeReply env0 = Inr message
     \<and> decodeSessionInfo lib message = Inr sessionInfo
     \<and> getStates lib envs category privateKey (snd (performHandshake lib env0 privateKey s0))
          = (Inr builts, s')"
  then obtain st where st: "sessionState (snd (performHandshake lib env0 privateKey s0)) = Some st"
    and c: "counter st = si_counter sessionInfo"
    using performHandshake_counter[of lib env0 privateKey s0 message sessionInfo] by blast
  from a have g: "getStates lib envs category privateKey (snd (performHandshake lib env0 privateKey s0))
          = (Inr builts, s')" by simp
  from getStates_counters[OF st g] c
  show "length builts = length envs
       \<and> (\<forall>k < length envs. \<exists>b. builts ! k = Some b
             \<and> sig_counter (cmd_signature (built_command b)) = si_counter sessionInfo + 1 + int k
             \<and> built_metadataItems b ! 5
                 = \<lparr>tag = TAG_COUNTER,
                    val = Some (uint32ToBytes (si_counter sessionInfo + 1 + int k))\<rparr>
             \<and> serializeMetadata (built_metadataItems b) = Inr (built_metadata b))"
    by simp
qed

text \<open>The theorem at two calls on the toy session: the counters are 8 and 9.\<close>

theorem getStates_counters_from_handshake_witness:
  "\<exists>builts s'.
     getStates toyLibrary
       [toyEnv\<lparr>commandReply := Inr (toyResponseMessage (replicate 16 110))\<rparr>,
        toyEnv\<lparr>commandReply := Inr (toyResponseMessage (replicate 16 110))\<rparr>]
       Drive toyPrivateKey toyEstablished = (Inr builts, s')
     \<and> length builts = 2
     \<and> (\<exists>b. builts ! 0 = Some b \<and> sig_counter (cmd_signature (built_command b)) = 8)
     \<and> (\<exists>b. builts ! 1 = Some b \<and> sig_counter (cmd_signature (built_command b)) = 9)"
proof -
  let ?envs = "[toyEnv\<lparr>commandReply := Inr (toyResponseMessage (replicate 16 110))\<rparr>,
        toyEnv\<lparr>commandReply := Inr (toyResponseMessage (replicate 16 110))\<rparr>]"
  let ?envH = "toyEnv\<lparr>handshakeReply := Inr (toySessionInfoMessage [7, 100, 4, 9] (replicate 32 29))\<rparr>"
  obtain r s' where g: "getStates toyLibrary ?envs Drive toyPrivateKey toyEstablished = (r, s')"
    by (cases "getStates toyLibrary ?envs Drive toyPrivateKey toyEstablished") auto
  with toy_two_calls obtain builts where r: "r = Inr builts" by (cases r) auto
  have h: "fst (performHandshake toyLibrary ?envH toyPrivateKey toySession) = Inr ()"
    and e: "snd (performHandshake toyLibrary ?envH toyPrivateKey toySession) = toyEstablished"
    by (simp_all add: toy_handshake)
  have D: "getStates toyLibrary ?envs Drive toyPrivateKey
             (snd (performHandshake toyLibrary ?envH toyPrivateKey toySession)) = (Inr builts, s')"
    unfolding e using g r by (simp only:)
  from getStates_counters_from_handshake
         [of toyLibrary ?envH toyPrivateKey toySession
             "toySessionInfoMessage [7, 100, 4, 9] (replicate 32 29)"
             "\<lparr>si_counter = 7, si_epoch = [7, 100], si_clockTime = 100, si_publicKey = [4, 9]\<rparr>"
             ?envs Drive builts s']
       h toy_accepts_facts D
  have conc: "length builts = length ?envs
       \<and> (\<forall>k < length ?envs. \<exists>b. builts ! k = Some b
             \<and> sig_counter (cmd_signature (built_command b))
                 = si_counter \<lparr>si_counter = 7, si_epoch = [7, 100], si_clockTime = 100,
                               si_publicKey = [4, 9]\<rparr> + 1 + int k
             \<and> built_metadataItems b ! 5
                 = \<lparr>tag = TAG_COUNTER,
                    val = Some (uint32ToBytes (si_counter \<lparr>si_counter = 7, si_epoch = [7, 100],
                                 si_clockTime = 100, si_publicKey = [4, 9]\<rparr> + 1 + int k))\<rparr>
             \<and> serializeMetadata (built_metadataItems b) = Inr (built_metadata b))"
    by blast
  then have len: "length builts = 2" by simp
  from conc have each: "\<forall>k < 2. \<exists>b. builts ! k = Some b
             \<and> sig_counter (cmd_signature (built_command b)) = 7 + 1 + int k"
    by (auto simp: numeral_2_eq_2)
  from each[THEN spec, of 0]
  have c0: "\<exists>b. builts ! 0 = Some b \<and> sig_counter (cmd_signature (built_command b)) = 8"
    by simp
  from each[THEN spec, of 1]
  have c1: "\<exists>b. builts ! 1 = Some b \<and> sig_counter (cmd_signature (built_command b)) = 9"
    by simp
  from c0 c1 g r len show ?thesis by blast
qed

text \<open>
  C6 as stated fails: the toy vehicle's session info carries the counter 7, and the
  first command after the handshake carries 8, not 1.
\<close>

theorem getStates_counters_counterexample:
  "performHandshake toyLibrary
     (toyEnv\<lparr>handshakeReply := Inr (toySessionInfoMessage [7, 100, 4, 9] (replicate 32 29))\<rparr>)
     toyPrivateKey toySession = (Inr (), toyEstablished)
   \<and> \<not> isl (fst (getStates toyLibrary
         [toyEnv\<lparr>commandReply := Inr (toyResponseMessage (replicate 16 110))\<rparr>]
         Drive toyPrivateKey toyEstablished))
   \<and> map (map_option (\<lambda>b. (sig_counter (cmd_signature (built_command b)),
                            built_metadataItems b ! 5)))
        (projr (fst (getStates toyLibrary
           [toyEnv\<lparr>commandReply := Inr (toyResponseMessage (replicate 16 110))\<rparr>]
           Drive toyPrivateKey toyEstablished)))
       = [Some (8, \<lparr>tag = 5, val = Some [0, 0, 0, 8]\<rparr>)]"
  by code_simp

end
